theory Spec2Isabelle
  imports Complex_Main "HOL-Library.Char_ord" "HOL-Library.List_Lexorder" "HOL-Library.Log_Nat"
begin

section \<open>Data model\<close>

text \<open>
  The commission and payout subsystem of the server, as a shallow embedding.

  \<^item> A JavaScript \<open>Number\<close> holding money, a rate or a fee is a \<open>rat\<close>, the rational
    that the double denotes. Where the code adds and subtracts amounts (the sums of the
    pending balance and the walk of the settlement) the model rounds each result to the
    nearest double, as the section on numbers below defines it. The products of the
    rate calculator and the sum of the day's payouts in the validation are the exact
    ones.
  \<^item> An \<open>ObjectId\<close> is a \<open>nat\<close>; a \<open>Date\<close> is a \<open>nat\<close> of milliseconds.
  \<^item> A MongoDB collection is the list of its documents in insertion order; the
    database is a record of the collections, passed in and returned.
  \<^item> A string is a \<open>char list\<close> of code units below 256; \<open>\<le>\<close> on strings is the
    lexicographic order on the code units, which is what JavaScript's \<open>\<le>\<close> on
    strings computes.
\<close>

section \<open>Numbers\<close>

text \<open>
  A finite double is \<open>m * 2^e\<close> with an integer \<open>m\<close> of at most 53 bits. The result of
  \<open>+\<close> and \<open>-\<close> on doubles is the exact result rounded to the nearest such number, a
  tie going to the even \<open>m\<close>. The limits of the exponent are left out: no result
  overflows to \<open>Infinity\<close> and none is subnormal.
\<close>

definition pow2 :: "int \<Rightarrow> rat" where
  "pow2 e = (if 0 \<le> e then 2 ^ nat e else 1 / 2 ^ nat (- e))"

text \<open>The nearest integer, a tie going to the even one.\<close>

definition roundHalfEven :: "rat \<Rightarrow> int" where
  "roundHalfEven x =
     (let n = \<lfloor>x\<rfloor>; r = x - of_int n
      in if r < 1 / 2 then n else if 1 / 2 < r then n + 1 else if even n then n else n + 1)"

text \<open>The binary exponent of \<open>x \<noteq> 0\<close>: the \<open>e\<close> with \<open>2^e \<le> \<bar>x\<bar> < 2^(e+1)\<close>.
  \<open>floorlog 2 n\<close> is the number of binary digits of \<open>n\<close>.\<close>

definition exponent :: "rat \<Rightarrow> int" where
  "exponent x =
     (if 1 \<le> \<bar>x\<bar> then int (floorlog 2 (nat \<lfloor>\<bar>x\<bar>\<rfloor>)) - 1
      else - int (floorlog 2 (nat (\<lceil>1 / \<bar>x\<bar>\<rceil> - 1))))"

text \<open>Rounding to the nearest double: the significand is scaled to 53 bits, rounded to
  an integer and scaled back.\<close>

definition fl :: "rat \<Rightarrow> rat" where
  "fl x =
     (if x = 0 then 0
      else (let e = exponent x - 52 in of_int (roundHalfEven (x / pow2 e)) * pow2 e))"

text \<open>\<open>a + b\<close> and \<open>a - b\<close> on Numbers.\<close>

definition dadd :: "rat \<Rightarrow> rat \<Rightarrow> rat" where
  "dadd a b = fl (a + b)"

definition dsub :: "rat \<Rightarrow> rat \<Rightarrow> rat" where
  "dsub a b = fl (a - b)"

text \<open>\<open>Number.isSafeInteger\<close>: a whole number of magnitude below \<open>2^53\<close>. Sums and
  differences of such numbers that stay in that range are exact.\<close>

definition isSafeInteger :: "rat \<Rightarrow> bool" where
  "isSafeInteger x = (x \<in> \<int> \<and> \<bar>x\<bar> < 2 ^ 53)"

subsection \<open>models/Commission.js: the schema\<close>

datatype commission_type = Delivery | AgentOrder

datatype commission_status = CPending | CPaid | CCancelled

record commission =
  cid :: nat
  orderId :: nat
  agentId :: nat
  ctype :: commission_type
  amount :: rat
  status :: commission_status
  orderTotal :: rat
  commissionRate :: rat
  isFixedAmount :: bool
  deliveryCount :: nat
  description :: string
  paidAt :: "nat option"
  cancelledAt :: "nat option"
  payoutRequestId :: "nat option"
  settingsVersion :: "nat option"
  createdAt :: nat

text \<open>The validators of the schema: \<open>amount\<close> min 0, \<open>commissionRate\<close> min 0,
  \<open>deliveryCount\<close> min 1. \<open>Commission.create\<close> throws when one of them fails.\<close>

definition schema_ok :: "commission \<Rightarrow> bool" where
  "schema_ok c = (0 \<le> amount c \<and> 0 \<le> commissionRate c \<and> 1 \<le> deliveryCount c)"

subsection \<open>models/PayoutSettings.js: the schema\<close>

record commission_rates =
  deliveryAmount :: rat
  agentOrder :: rat

record payout_schedule =
  enabled :: bool
  dayOfWeek :: nat
  startTime :: string
  endTime :: string

text \<open>The notification, two-factor and audit-trail fields are left out: none of the
  functions below reads them.\<close>

record payout_settings =
  sid :: nat
  minWithdrawalAmount :: rat
  maxWithdrawalAmount :: rat
  commissionRates :: commission_rates
  payoutSchedule :: payout_schedule
  globalPayoutHold :: bool
  holdReason :: string
  processingFee :: rat
  autoApprovalThreshold :: rat
  requireManagerApproval :: bool
  maxPayoutsPerDay :: nat
  maxPayoutAmountPerDay :: rat

subsection \<open>models/PayoutRequest.js: the schema\<close>

datatype payout_status = Pending | Approved | Paid | Rejected | OnHold

text \<open>The warnings and errors of the validation code are template strings; each is
  modelled by a constructor that carries the numbers the string interpolates.\<close>

datatype validation_warning =
    NextPayoutWindow "nat option"
  | WillAutoApprove rat
  | PaymentAutomatic
  | PaymentPendingBalance
  | RequiresManagerApproval rat
  | AllRequireManagerApproval
  | ProcessingFeeDeducted rat

datatype validation_error =
    GlobalHold
  | BelowMinimum rat
  | AboveMaximum rat
  | OutsideWindow
  | InsufficientBalance rat
  | DuplicateOutstanding
  | AgentOnHold
  | DailyCountLimit nat
  | DailyAmountLimit rat

record payout_metadata =
  mSettingsVersion :: "nat option"
  mProcessingFee :: rat
  mValidatedAt :: nat
  mValidationWarnings :: "validation_warning list"
  mAutoApproved :: bool
  mAutoApprovalThreshold :: rat

record payout_request =
  pid :: nat
  pAgentId :: nat
  pAmount :: rat
  pMethod :: string
  accountDetails :: string
  pStatus :: payout_status
  processedAt :: "nat option"
  processedBy :: "nat option"
  pNotes :: string
  rejectionReason :: "string option"
  commissionIds :: "nat list"
  metadata :: "payout_metadata option"
  pCreatedAt :: nat

subsection \<open>Orders, users and the database\<close>

record order_item =
  quantity :: nat

record order =
  oid :: nat
  totalPrice :: rat
  orderItems :: "order_item list option"

record user =
  uid :: nat
  role :: string
  payoutHoldIsHeld :: bool

record db =
  orders :: "order list"
  users :: "user list"
  commissions :: "commission list"
  payoutRequests :: "payout_request list"
  settings :: "payout_settings option"
  nextId :: nat

definition Order_findById :: "db \<Rightarrow> nat \<Rightarrow> order option" where
  "Order_findById d i = find (\<lambda>x. oid x = i) (orders d)"

definition User_findById :: "db \<Rightarrow> nat \<Rightarrow> user option" where
  "User_findById d i = find (\<lambda>x. uid x = i) (users d)"

definition PayoutRequest_findById :: "db \<Rightarrow> nat \<Rightarrow> payout_request option" where
  "PayoutRequest_findById d i = find (\<lambda>x. pid x = i) (payoutRequests d)"

text \<open>\<open>Commission.create\<close>: validates, assigns a fresh \<open>_id\<close> and the \<open>createdAt\<close>
  timestamp, inserts. The \<open>cid\<close> and \<open>createdAt\<close> of the argument are ignored.
  \<open>None\<close> is the thrown validation error.\<close>

definition Commission_create :: "nat \<Rightarrow> commission \<Rightarrow> db \<Rightarrow> (commission \<times> db) option" where
  "Commission_create now doc d =
     (if schema_ok doc then
        (let c = doc\<lparr>cid := nextId d, createdAt := now\<rparr>
         in Some (c, d\<lparr>commissions := commissions d @ [c], nextId := Suc (nextId d)\<rparr>))
      else None)"

text \<open>\<open>doc.save()\<close> on a commission read from the collection: the stored document
  with the same \<open>_id\<close> is replaced by the document in memory. (Mongoose writes the
  paths that were modified; the two agree when the other paths of the stored document
  are as they were read.)\<close>

definition Commission_save :: "commission \<Rightarrow> db \<Rightarrow> db" where
  "Commission_save c d =
     d\<lparr>commissions := map (\<lambda>x. if cid x = cid c then c else x) (commissions d)\<rparr>"

definition PayoutRequest_save :: "payout_request \<Rightarrow> db \<Rightarrow> db" where
  "PayoutRequest_save r d =
     d\<lparr>payoutRequests := map (\<lambda>x. if pid x = pid r then r else x) (payoutRequests d)\<rparr>"

section \<open>The commission rate calculator\<close>

subsection \<open>PayoutSettings.getCurrentSettings\<close>

definition defaultSettings :: "nat \<Rightarrow> payout_settings" where
  "defaultSettings i =
     \<lparr>sid = i, minWithdrawalAmount = 100, maxWithdrawalAmount = 50000,
      commissionRates = \<lparr>deliveryAmount = 200, agentOrder = 3 / 100\<rparr>,
      payoutSchedule = \<lparr>enabled = False, dayOfWeek = 5, startTime = ''07:00'', endTime = ''23:59''\<rparr>,
      globalPayoutHold = False, holdReason = [], processingFee = 0,
      autoApprovalThreshold = 1000, requireManagerApproval = False,
      maxPayoutsPerDay = 5, maxPayoutAmountPerDay = 100000\<rparr>"

text \<open>The first argument says whether the policy store answers; when it does not, the
  query throws, which is \<open>None\<close>. When no settings document exists, the defaults are
  created and returned.\<close>

definition getCurrentSettings :: "bool \<Rightarrow> db \<Rightarrow> (payout_settings \<times> db) option" where
  "getCurrentSettings up d =
     (if \<not> up then None
      else (case settings d of
              Some s \<Rightarrow> Some (s, d)
            | None \<Rightarrow>
                (let s = defaultSettings (nextId d)
                 in Some (s, d\<lparr>settings := Some s, nextId := Suc (nextId d)\<rparr>))))"

subsection \<open>Commission.calculateCommission\<close>

text \<open>\<open>Math.round\<close>: the nearest integer, a tie going up.\<close>

definition Math_round :: "rat \<Rightarrow> rat" where
  "Math_round x = of_int \<lfloor>x + 1 / 2\<rfloor>"

record commission_data =
  cdAmount :: rat
  cdRate :: rat
  cdIsFixedAmount :: bool
  cdDeliveryCount :: nat
  cdSettingsId :: "nat option"

text \<open>\<open>x || 0.03\<close> on a number: \<open>0.03\<close> when \<open>x\<close> is \<open>0\<close>, else \<open>x\<close>.\<close>

definition calculateCommission ::
  "bool \<Rightarrow> rat \<Rightarrow> commission_type \<Rightarrow> nat \<Rightarrow> db \<Rightarrow> commission_data \<times> db" where
  "calculateCommission up orderTotal' type' deliveryCount' d =
     (case getCurrentSettings up d of
        Some (s, d') \<Rightarrow>
          (if type' = Delivery then
             (\<lparr>cdAmount = deliveryAmount (commissionRates s) * of_nat deliveryCount',
               cdRate = deliveryAmount (commissionRates s),
               cdIsFixedAmount = True, cdDeliveryCount = deliveryCount',
               cdSettingsId = Some (sid s)\<rparr>, d')
           else
             (let rate = (if agentOrder (commissionRates s) = 0 then 3 / 100
                          else agentOrder (commissionRates s))
              in (\<lparr>cdAmount = Math_round (orderTotal' * rate), cdRate = rate,
                   cdIsFixedAmount = False, cdDeliveryCount = deliveryCount',
                   cdSettingsId = Some (sid s)\<rparr>, d')))
      | None \<Rightarrow>
          (if type' = Delivery then
             (\<lparr>cdAmount = 200 * of_nat deliveryCount', cdRate = 200,
               cdIsFixedAmount = True, cdDeliveryCount = deliveryCount',
               cdSettingsId = None\<rparr>, d)
           else
             (\<lparr>cdAmount = Math_round (orderTotal' * (3 / 100)), cdRate = 3 / 100,
               cdIsFixedAmount = False, cdDeliveryCount = deliveryCount',
               cdSettingsId = None\<rparr>, d)))"

section \<open>The commission ledger\<close>

subsection \<open>commissionController.createCommission\<close>

datatype error =
    OrderNotFound
  | InvalidAgent
  | ValidationFailed
  | PayoutNotFound
  | InvalidAction
  | AlreadyPaid
  | AlreadyRejected
  | OnlyPendingApproved
  | OnlyPendingOrApprovedPaid
  | InsufficientPending rat rat
  | PaymentProcessingError rat rat
  | RejectionReasonRequired
  | RejectionReasonTooShort
  | RejectionReasonTooLong
  | OnlyHeldReleased
  | MissingFields
  | InvalidPaymentMethod
  | InvalidMpesaNumber
  | AmountNotAboveFee rat
  | ValidationErrors "validation_error list" "validation_warning list"
  | InvalidWithdrawalAmount
  | AgentIdRequired
  | AgentNotFound
  | InvalidDate
  | NullReference

text \<open>The description of a new commission is a template string over
  \<open>toLocaleString\<close> and \<open>toFixed\<close>; the formatting is a parameter: type, rate,
  delivery count, order total and amount to the text.\<close>

type_synonym describe = "commission_type \<Rightarrow> rat \<Rightarrow> nat \<Rightarrow> rat \<Rightarrow> rat \<Rightarrow> string"

definition sameKey :: "nat \<Rightarrow> nat \<Rightarrow> commission_type \<Rightarrow> commission \<Rightarrow> bool" where
  "sameKey o' a' t' c = (orderId c = o' \<and> agentId c = a' \<and> ctype c = t')"

text \<open>\<open>order.orderItems ? order.orderItems.reduce((sum, item) => sum + item.quantity, 0) : 1\<close>\<close>

definition itemCount :: "order \<Rightarrow> nat" where
  "itemCount order' =
     (case orderItems order' of Some items \<Rightarrow> sum_list (map quantity items) | None \<Rightarrow> 1)"

definition createCommission ::
  "describe \<Rightarrow> bool \<Rightarrow> nat \<Rightarrow> nat \<Rightarrow> nat \<Rightarrow> commission_type \<Rightarrow> db \<Rightarrow> (error + commission) \<times> db" where
  "createCommission descr up now orderId' agentId' type' d =
     (case Order_findById d orderId' of
        None \<Rightarrow> (Inl OrderNotFound, d)
      | Some order' \<Rightarrow>
          (case User_findById d agentId' of
             None \<Rightarrow> (Inl InvalidAgent, d)
           | Some agent \<Rightarrow>
               if role agent \<noteq> ''agent'' then (Inl InvalidAgent, d)
               else
                 (case find (sameKey orderId' agentId' type') (commissions d) of
                    Some existingCommission \<Rightarrow> (Inr existingCommission, d)
                  | None \<Rightarrow>
                      (let count = (if type' = Delivery then itemCount order' else 1);
                           (cd, d1) = calculateCommission up (totalPrice order') type' count d
                       in (case Commission_create now
                                  \<lparr>cid = 0, orderId = orderId', agentId = agentId',
                                   ctype = type', amount = cdAmount cd, status = CPending,
                                   orderTotal = totalPrice order',
                                   commissionRate = cdRate cd,
                                   isFixedAmount = cdIsFixedAmount cd,
                                   deliveryCount = cdDeliveryCount cd,
                                   description = descr type' (cdRate cd) count
                                                   (totalPrice order') (cdAmount cd),
                                   paidAt = None, cancelledAt = None,
                                   payoutRequestId = None,
                                   settingsVersion = cdSettingsId cd, createdAt = 0\<rparr> d1 of
                             None \<Rightarrow> (Inl ValidationFailed, d1)
                           | Some (c, d2) \<Rightarrow> (Inr c, d2))))))"

section \<open>The payout request workflow and the settlement\<close>

subsection \<open>Reading the ledger\<close>

text \<open>The pre-find hook of the Commission schema populates \<open>orderId\<close>, \<open>agentId\<close> and
  \<open>settingsVersion\<close> on every query: in a document that \<open>Commission.find\<close> returns,
  each of the three paths holds the referenced document, or \<open>null\<close> when no such
  document is stored. \<open>cdoc\<close> is the document as stored; the other fields are what the
  three paths hold after the query.\<close>

record populated =
  cdoc :: commission
  orderRef :: "order option"
  agentRef :: "user option"
  settingsRef :: "payout_settings option"

definition populate :: "db \<Rightarrow> commission \<Rightarrow> populated" where
  "populate d c =
     \<lparr>cdoc = c, orderRef = Order_findById d (orderId c),
      agentRef = User_findById d (agentId c),
      settingsRef = (case settingsVersion c of
                       None \<Rightarrow> None
                     | Some v \<Rightarrow>
                         (case settings d of
                            None \<Rightarrow> None
                          | Some s \<Rightarrow> if sid s = v then Some s else None))\<rparr>"

text \<open>\<open>Commission.find({agentId, status: 'pending'}).sort({createdAt: 1})\<close>: the
  agent's pending entries, oldest first. Entries with equal timestamps keep their
  insertion order.\<close>

definition pendingDocs :: "db \<Rightarrow> nat \<Rightarrow> commission list" where
  "pendingDocs d a =
     sort_key createdAt (filter (\<lambda>c. agentId c = a \<and> status c = CPending) (commissions d))"

definition pendingCommissions :: "db \<Rightarrow> nat \<Rightarrow> populated list" where
  "pendingCommissions d a = map (populate d) (pendingDocs d a)"

text \<open>\<open>cs.reduce((sum, commission) => sum + commission.amount, 0)\<close>\<close>

definition totalAmount :: "commission list \<Rightarrow> rat" where
  "totalAmount cs = foldl (\<lambda>acc c. dadd acc (amount c)) 0 cs"

subsection \<open>The allocation loop\<close>

definition typeName :: "commission_type \<Rightarrow> string" where
  "typeName t = (case t of Delivery \<Rightarrow> ''delivery'' | AgentOrder \<Rightarrow> ''agent_order'')"

text \<open>\<open>c.description ? `${c.description} (tag)` : `${c.type} commission (tag)`\<close>\<close>

definition tagged :: "string \<Rightarrow> commission \<Rightarrow> string" where
  "tagged tag c =
     (if description c \<noteq> [] then description c @ '' ('' @ tag @ '')''
      else typeName (ctype c) @ '' commission ('' @ tag @ '')'')"

text \<open>The loop is written twice in the controller: in processPayoutRequest (the manual
  pay) and in createPayoutRequest (the automatic payment). The two copies differ in the
  tag of the descriptions (\<open>Split\<close> or \<open>Auto-Split\<close>) and in that only the automatic one
  copies \<open>settingsVersion\<close> to the remainder; the flag \<open>auto\<close> selects the copy.\<close>

text \<open>The document passed to \<open>Commission.create\<close> for the remainder of a split. The
  fields the call leaves out take the schema's defaults. \<open>orderId\<close> and \<open>agentId\<close>
  are given as the original holds them after the query: a populated document is cast
  to its \<open>_id\<close>; \<open>null\<close> fails the \<open>required\<close> validator of the path, and the
  document is \<open>None\<close>: \<open>Commission.create\<close> throws on it. A \<open>settingsVersion\<close>
  of \<open>null\<close> is stored as absent.\<close>

definition remainderDoc :: "bool \<Rightarrow> populated \<Rightarrow> rat \<Rightarrow> commission option" where
  "remainderDoc auto p remainingCommissionAmount =
     (case orderRef p of
        None \<Rightarrow> None
      | Some ord \<Rightarrow>
          (case agentRef p of
             None \<Rightarrow> None
           | Some ag \<Rightarrow>
               Some \<lparr>cid = 0, orderId = oid ord, agentId = uid ag, ctype = ctype (cdoc p),
                     amount = remainingCommissionAmount, status = CPending,
                     orderTotal = orderTotal (cdoc p),
                     commissionRate = commissionRate (cdoc p), isFixedAmount = False,
                     deliveryCount = 1,
                     description = tagged (if auto then ''Auto-Split - Remaining''
                                           else ''Split - Remaining'') (cdoc p),
                     paidAt = None, cancelledAt = None, payoutRequestId = None,
                     settingsVersion = (if auto then map_option sid (settingsRef p) else None),
                     createdAt = 0\<rparr>))"

text \<open>The original of a split, as the loop mutates it in memory.\<close>

definition splitPaid :: "bool \<Rightarrow> commission \<Rightarrow> rat \<Rightarrow> commission" where
  "splitPaid auto c paidAmount =
     c\<lparr>amount := paidAmount,
       description := tagged (if auto then ''Auto-Split - Paid'' else ''Split - Paid'') c\<rparr>"

record allocation =
  remainingAmount :: rat
  paidCommissionIds :: "nat list"
  commissionsToUpdate :: "commission list"
  newCommissions :: "commission option list"

text \<open>\<open>for (const commission of pendingCommissions)\<close>. The loop's one database write,
  \<open>Commission.create\<close> in the split branch, is followed by \<open>break\<close>: the model
  returns the document to create in \<open>newCommissions\<close> and the caller inserts it
  right after the loop, before the saves, as the source does.\<close>

fun allocate :: "bool \<Rightarrow> rat \<Rightarrow> populated list \<Rightarrow> allocation" where
  "allocate auto remaining [] =
     \<lparr>remainingAmount = remaining, paidCommissionIds = [], commissionsToUpdate = [],
      newCommissions = []\<rparr>"
| "allocate auto remaining (p # ps) =
     (if remaining \<le> 0 then
        \<lparr>remainingAmount = remaining, paidCommissionIds = [], commissionsToUpdate = [],
         newCommissions = []\<rparr>
      else if amount (cdoc p) \<le> remaining then
        (let a = allocate auto (dsub remaining (amount (cdoc p))) ps
         in a\<lparr>paidCommissionIds := cid (cdoc p) # paidCommissionIds a,
              commissionsToUpdate := cdoc p # commissionsToUpdate a\<rparr>)
      else
        \<lparr>remainingAmount = 0, paidCommissionIds = [cid (cdoc p)],
         commissionsToUpdate = [splitPaid auto (cdoc p) remaining],
         newCommissions = [remainderDoc auto p (dsub (amount (cdoc p)) remaining)]\<rparr>)"

text \<open>The creations of the loop, in order; \<open>None\<close> when one of them throws.\<close>

fun createAll :: "nat \<Rightarrow> commission option list \<Rightarrow> db \<Rightarrow> db option" where
  "createAll now [] d = Some d"
| "createAll now (doc # docs) d =
     (case doc of
        None \<Rightarrow> None
      | Some x \<Rightarrow>
          (case Commission_create now x d of
             None \<Rightarrow> None
           | Some (c, d') \<Rightarrow> createAll now docs d'))"

text \<open>\<open>for (const { commission, newStatus } of commissionsToUpdate)\<close>: the status,
  \<open>paidAt\<close> and \<open>payoutRequestId\<close> are set and the document is saved.\<close>

definition markPaid :: "nat \<Rightarrow> nat \<Rightarrow> commission \<Rightarrow> commission" where
  "markPaid now rid c = c\<lparr>status := CPaid, paidAt := Some now, payoutRequestId := Some rid\<rparr>"

definition saveAllPaid :: "nat \<Rightarrow> nat \<Rightarrow> commission list \<Rightarrow> db \<Rightarrow> db" where
  "saveAllPaid now rid cs d = fold (\<lambda>c. Commission_save (markPaid now rid c)) cs d"

subsection \<open>PayoutRequest methods\<close>

definition approve :: "nat \<Rightarrow> nat \<Rightarrow> payout_request \<Rightarrow> payout_request" where
  "approve now by' r =
     r\<lparr>pStatus := Approved, processedAt := Some now, processedBy := Some by',
       pNotes := (if pNotes r \<noteq> [] then pNotes r @ ''; Manually approved''
                  else ''Manually approved by admin'')\<rparr>"

definition markAsPaid :: "nat \<Rightarrow> nat \<Rightarrow> payout_request \<Rightarrow> payout_request" where
  "markAsPaid now by' r =
     r\<lparr>pStatus := Paid, processedAt := Some now, processedBy := Some by',
       pNotes := (if pNotes r \<noteq> [] then pNotes r @ ''; Manually marked as paid''
                  else ''Manually marked as paid by admin'')\<rparr>"

definition reject :: "nat \<Rightarrow> string \<Rightarrow> nat \<Rightarrow> payout_request \<Rightarrow> payout_request" where
  "reject now reason by' r =
     r\<lparr>pStatus := Rejected, rejectionReason := Some reason, processedAt := Some now,
       processedBy := Some by'\<rparr>"

subsection \<open>commissionController.processPayoutRequest\<close>

datatype action = ActApprove | ActPay | ActReject | ActHold | ActRelease | ActOther

text \<open>\<open>String.prototype.trim\<close>: the white space and line terminators among the code
  units below 256 are tab, line feed, vertical tab, form feed, carriage return, space
  and the no-break space U+00A0.\<close>

definition isSpace :: "char \<Rightarrow> bool" where
  "isSpace c =
     (c \<in> set [CHR '' '', CHR 0x09, CHR 0x0A, CHR 0x0B, CHR 0x0C, CHR 0x0D, CHR 0xA0])"

definition trim :: "string \<Rightarrow> string" where
  "trim s = rev (dropWhile isSpace (rev (dropWhile isSpace s)))"

text \<open>After the switch: the notes of the request body are stored when the updated
  request has none and the action is not a rejection; the response carries the request
  as stored.\<close>

definition finish ::
  "action \<Rightarrow> string \<Rightarrow> payout_request \<Rightarrow> db \<Rightarrow> (error + payout_request) \<times> db" where
  "finish act notes' updatedRequest d =
     (let d1 = PayoutRequest_save updatedRequest d
      in if notes' \<noteq> [] \<and> pNotes updatedRequest = [] \<and> act \<noteq> ActReject then
           (let u = updatedRequest\<lparr>pNotes := trim notes'\<rparr>
            in (Inr u, PayoutRequest_save u d1))
         else (Inr updatedRequest, d1))"

text \<open>The case \<open>'pay'\<close> of the switch, in two parts. The handler is an \<open>async\<close>
  function: at each \<open>await\<close> it yields, and other handlers run before it resumes.
  \<open>payRead\<close> is the part that only reads, up to the check of the balance:
  the status check, the query of the agent's pending entries and the comparison of
  their sum with the amount. \<open>payWrite\<close> is the rest: the walk with its creation,
  the saves, and the request marked paid. \<open>pay\<close> is the handler running alone: the
  one part directly after the other.

  \<open>agent\<close> is \<open>payoutRequest.agentId\<close>, which \<open>populate\<close> has replaced by the
  account, or by \<open>null\<close> when the account is not stored; \<open>payoutRequest.agentId._id\<close>
  then throws a TypeError, which the handler's \<open>catch\<close> answers (\<open>NullReference\<close>).\<close>

definition payRead :: "payout_request \<Rightarrow> user option \<Rightarrow> db \<Rightarrow> error + populated list" where
  "payRead payoutRequest agent d =
     (if pStatus payoutRequest \<noteq> Pending \<and> pStatus payoutRequest \<noteq> Approved then
        Inl OnlyPendingOrApprovedPaid
      else
        (case agent of
           None \<Rightarrow> Inl NullReference
         | Some ag \<Rightarrow>
             (let pending = pendingCommissions d (uid ag);
                  totalPendingAmount = totalAmount (map cdoc pending)
              in if totalPendingAmount < pAmount payoutRequest then
                   Inl (InsufficientPending totalPendingAmount (pAmount payoutRequest))
                 else Inr pending)))"

definition payWrite ::
  "nat \<Rightarrow> nat \<Rightarrow> string \<Rightarrow> payout_request \<Rightarrow> populated list \<Rightarrow> db
     \<Rightarrow> (error + payout_request) \<times> db" where
  "payWrite now userId notes' payoutRequest pending d =
     (let a = allocate False (pAmount payoutRequest) pending
      in (case createAll now (newCommissions a) d of
            None \<Rightarrow> (Inl ValidationFailed, d)
          | Some d1 \<Rightarrow>
              (let d2 = saveAllPaid now (pid payoutRequest) (commissionsToUpdate a) d1;
                   totalPaid = dsub (pAmount payoutRequest) (remainingAmount a)
               in if totalPaid \<noteq> pAmount payoutRequest then
                    (Inl (PaymentProcessingError totalPaid (pAmount payoutRequest)), d2)
                  else
                    finish ActPay notes'
                      (markAsPaid now userId
                         (payoutRequest\<lparr>commissionIds := paidCommissionIds a\<rparr>))
                      d2)))"

definition pay ::
  "nat \<Rightarrow> nat \<Rightarrow> string \<Rightarrow> payout_request \<Rightarrow> user option \<Rightarrow> db
     \<Rightarrow> (error + payout_request) \<times> db" where
  "pay now userId notes' payoutRequest agent d =
     (case payRead payoutRequest agent d of
        Inl e \<Rightarrow> (Inl e, d)
      | Inr pending \<Rightarrow> payWrite now userId notes' payoutRequest pending d)"


text \<open>The arguments: the clock, \<open>req.user.id\<close>, \<open>req.params.id\<close>, and the \<open>action\<close>,
  \<open>notes\<close> and \<open>rejectionReason\<close> of the request body (an absent string is the empty
  one: both are falsy). The request is read with \<open>populate('agentId')\<close>; only the pay
  action reads the populated path.\<close>

definition processPayoutRequest ::
  "nat \<Rightarrow> nat \<Rightarrow> nat \<Rightarrow> action \<Rightarrow> string \<Rightarrow> string \<Rightarrow> db \<Rightarrow> (error + payout_request) \<times> db" where
  "processPayoutRequest now userId rid act notes' rejectionReason' d =
     (case PayoutRequest_findById d rid of
        None \<Rightarrow> (Inl PayoutNotFound, d)
      | Some payoutRequest \<Rightarrow>
          if act = ActOther then (Inl InvalidAction, d)
          else if pStatus payoutRequest = Paid then (Inl AlreadyPaid, d)
          else if pStatus payoutRequest = Rejected then (Inl AlreadyRejected, d)
          else
            (case act of
               ActApprove \<Rightarrow>
                 if pStatus payoutRequest \<noteq> Pending then (Inl OnlyPendingApproved, d)
                 else finish act notes' (approve now userId payoutRequest) d
             | ActPay \<Rightarrow>
                 pay now userId notes' payoutRequest
                   (User_findById d (pAgentId payoutRequest)) d
             | ActReject \<Rightarrow>
                 if rejectionReason' = [] \<or> length (trim rejectionReason') = 0 then
                   (Inl RejectionReasonRequired, d)
                 else if length (trim rejectionReason') < 3 then
                   (Inl RejectionReasonTooShort, d)
                 else if length (trim rejectionReason') > 500 then
                   (Inl RejectionReasonTooLong, d)
                 else finish act notes'
                        (reject now (trim rejectionReason') userId payoutRequest) d
             | ActHold \<Rightarrow>
                 finish act notes'
                   (payoutRequest\<lparr>pStatus := OnHold, processedAt := Some now,
                      processedBy := Some userId,
                      pNotes := (if notes' \<noteq> [] then trim notes' else pNotes payoutRequest)\<rparr>) d
             | ActRelease \<Rightarrow>
                 if pStatus payoutRequest \<noteq> OnHold then (Inl OnlyHeldReleased, d)
                 else finish act notes'
                        (payoutRequest\<lparr>pStatus := Pending, processedAt := Some now,
                           processedBy := Some userId,
                           pNotes := (if notes' \<noteq> [] then trim notes'
                                      else pNotes payoutRequest)\<rparr>) d
             | ActOther \<Rightarrow> (Inl InvalidAction, d)))"





section \<open>The payout window\<close>

subsection \<open>Dates\<close>

text \<open>A \<open>Date\<close> is its number of milliseconds since 1 January 1970, a Thursday. The
  server's local time is taken to be UTC, so that the calendar fields are functions of
  that number and a day has 86400000 milliseconds.\<close>

definition msPerDay :: nat where
  "msPerDay = 86400000"

definition getDay :: "nat \<Rightarrow> nat" where
  "getDay t = (t div msPerDay + 4) mod 7"

definition getHours :: "nat \<Rightarrow> nat" where
  "getHours t = (t mod msPerDay) div 3600000"

definition getMinutes :: "nat \<Rightarrow> nat" where
  "getMinutes t = (t mod 3600000) div 60000"

definition digitChar :: "nat \<Rightarrow> char" where
  "digitChar d = ''0123456789'' ! d"

definition pad2 :: "nat \<Rightarrow> string" where
  "pad2 n = [digitChar (n div 10), digitChar (n mod 10)]"

text \<open>\<open>now.toTimeString().substr(0, 5)\<close>: hours and minutes, two digits each.\<close>

definition currentTimeOf :: "nat \<Rightarrow> string" where
  "currentTimeOf t = pad2 (getHours t) @ '':'' @ pad2 (getMinutes t)"

text \<open>\<open>nextDate.setDate(nextDate.getDate() + k)\<close>\<close>

definition addDays :: "nat \<Rightarrow> nat \<Rightarrow> nat" where
  "addDays t k = t + k * msPerDay"

text \<open>\<open>nextDate.setHours(h, m, 0, 0)\<close>\<close>

definition setHours :: "nat \<Rightarrow> nat \<Rightarrow> nat \<Rightarrow> nat" where
  "setHours t h m = (t div msPerDay) * msPerDay + h * 3600000 + m * 60000"

definition isDigit :: "char \<Rightarrow> bool" where
  "isDigit c = (CHR ''0'' \<le> c \<and> c \<le> CHR ''9'')"

definition digitVal :: "char \<Rightarrow> nat" where
  "digitVal c = of_char c - 48"

text \<open>\<open>parseInt\<close> on a part of a time string: the value of its leading decimal
  digits; \<open>None\<close> is \<open>NaN\<close>.\<close>

definition parseInt :: "string \<Rightarrow> nat option" where
  "parseInt s =
     (let ds = takeWhile isDigit s
      in if ds = [] then None else Some (foldl (\<lambda>n c. 10 * n + digitVal c) 0 ds))"

text \<open>\<open>const [hours, minutes] = startTime.split(':')\<close>; without a colon
  \<open>minutes\<close> is undefined.\<close>

definition splitTime :: "string \<Rightarrow> string \<times> string option" where
  "splitTime s =
     (takeWhile (\<lambda>c. c \<noteq> CHR '':'') s,
      (case dropWhile (\<lambda>c. c \<noteq> CHR '':'') s of
         [] \<Rightarrow> None
       | colon # rest \<Rightarrow> Some (takeWhile (\<lambda>c. c \<noteq> CHR '':'') rest)))"

subsection \<open>The window test and the next window\<close>

text \<open>The same lines stand in arePayoutsAllowed, in checkPayoutWindow, in the validation
  middleware and in validateWithdrawalRequest:
  \<open>currentDay === dayOfWeek\<close>, and
  \<open>currentTime >= startTime && currentTime <= endTime\<close> on strings.\<close>

definition isCorrectDay :: "payout_schedule \<Rightarrow> nat \<Rightarrow> bool" where
  "isCorrectDay sch now = (getDay now = dayOfWeek sch)"

definition isWithinTimeRange :: "payout_schedule \<Rightarrow> nat \<Rightarrow> bool" where
  "isWithinTimeRange sch now =
     (currentTimeOf now \<ge> startTime sch \<and> currentTimeOf now \<le> endTime sch)"

text \<open>"Calculate next payout window": \<open>None\<close> is the invalid date that
  \<open>setHours(NaN, ...)\<close> leaves.\<close>

definition nextWindow :: "payout_schedule \<Rightarrow> nat \<Rightarrow> nat option" where
  "nextWindow sch now =
     (let currentDay = getDay now;
          currentTime = currentTimeOf now;
          daysUntilNext = (dayOfWeek sch + 7 - currentDay) mod 7;
          nextDate = (if daysUntilNext = 0 \<and> currentTime > endTime sch then addDays now 7
                      else addDays now daysUntilNext)
      in (case splitTime (startTime sch) of
            (hours, minutes) \<Rightarrow>
              (case (parseInt hours, Option.bind minutes parseInt) of
                 (Some h, Some m) \<Rightarrow> Some (setHours nextDate h m)
               | other \<Rightarrow> None)))"

subsection \<open>PayoutSettings.arePayoutsAllowed\<close>

datatype allowed_reason =
    GlobalHoldActive
  | SchedulingDisabled
  | OnlyOnDay nat
  | OnlyBetween string string
  | WithinWindow

definition arePayoutsAllowed :: "payout_settings \<Rightarrow> nat \<Rightarrow> bool \<times> allowed_reason" where
  "arePayoutsAllowed s now =
     (if globalPayoutHold s then (False, GlobalHoldActive)
      else if \<not> enabled (payoutSchedule s) then (True, SchedulingDisabled)
      else if \<not> isCorrectDay (payoutSchedule s) now then
        (False, OnlyOnDay (dayOfWeek (payoutSchedule s)))
      else if \<not> isWithinTimeRange (payoutSchedule s) now then
        (False, OnlyBetween (startTime (payoutSchedule s)) (endTime (payoutSchedule s)))
      else (True, WithinWindow))"

subsection \<open>payoutSettingsController.checkPayoutWindow\<close>

record window_status =
  isPayoutWindowOpen :: bool
  nextPayoutWindow :: "nat option"

text \<open>\<open>nextDate.toISOString()\<close> throws on an invalid date; the handler answers with
  the error.\<close>

definition checkPayoutWindow :: "db \<Rightarrow> nat \<Rightarrow> error + window_status" where
  "checkPayoutWindow d now =
     (case settings d of
        None \<Rightarrow> Inr \<lparr>isPayoutWindowOpen = True, nextPayoutWindow = None\<rparr>
      | Some s \<Rightarrow>
          if \<not> enabled (payoutSchedule s) then
            Inr \<lparr>isPayoutWindowOpen = True, nextPayoutWindow = None\<rparr>
          else if isCorrectDay (payoutSchedule s) now
                  \<and> isWithinTimeRange (payoutSchedule s) now \<and> \<not> globalPayoutHold s then
            Inr \<lparr>isPayoutWindowOpen = True, nextPayoutWindow = None\<rparr>
          else
            (case nextWindow (payoutSchedule s) now of
               None \<Rightarrow> Inl InvalidDate
             | Some t \<Rightarrow> Inr \<lparr>isPayoutWindowOpen = False, nextPayoutWindow = Some t\<rparr>))"

section \<open>Validation and creation of payout requests\<close>

subsection \<open>middleware/payoutValidation.validatePayoutRequest\<close>

record payout_validation =
  vSettings :: payout_settings
  vWarnings :: "validation_warning list"
  vAvailableBalance :: rat
  vWillAutoApprove :: bool
  vWillRequireApproval :: bool

text \<open>\<open>NoSettings\<close>: no settings document exists and the middleware calls \<open>next()\<close>
  without any check ("backward compatibility"); \<open>req.payoutValidation\<close> stays
  undefined. \<open>Failed\<close>: the response 400 with the errors and warnings collected.
  \<open>Passed\<close>: \<open>next()\<close> with \<open>req.payoutValidation\<close> set.\<close>

datatype validation_outcome =
    NoSettings
  | Failed "validation_error list" "validation_warning list"
  | Passed payout_validation

text \<open>\<open>PayoutRequest.findOne({agentId, status: {$in: ['pending', 'approved', 'on_hold']}})\<close>\<close>

definition existingPayout :: "db \<Rightarrow> nat \<Rightarrow> payout_request option" where
  "existingPayout d a =
     find (\<lambda>p. pAgentId p = a \<and> (pStatus p = Pending \<or> pStatus p = Approved \<or> pStatus p = OnHold))
       (payoutRequests d)"

text \<open>\<open>PayoutRequest.find({agentId, createdAt: {$gte: new Date(Date.now() - 24 * 60 * 60 * 1000)}})\<close>;
  the comparison is written with the day added on the left.\<close>

definition recentPayouts :: "db \<Rightarrow> nat \<Rightarrow> nat \<Rightarrow> payout_request list" where
  "recentPayouts d a now =
     filter (\<lambda>p. pAgentId p = a \<and> now \<le> pCreatedAt p + msPerDay) (payoutRequests d)"

definition validatePayoutRequest :: "nat \<Rightarrow> nat \<Rightarrow> rat \<Rightarrow> db \<Rightarrow> validation_outcome" where
  "validatePayoutRequest now agentId' amount' d =
     (case settings d of
        None \<Rightarrow> NoSettings
      | Some s \<Rightarrow>
          (let sch = payoutSchedule s;
               e1 = (if globalPayoutHold s then [GlobalHold] else []);
               e2 = (if amount' < minWithdrawalAmount s then [BelowMinimum (minWithdrawalAmount s)]
                     else []);
               e3 = (if amount' > maxWithdrawalAmount s then [AboveMaximum (maxWithdrawalAmount s)]
                     else []);
               closed = (enabled sch \<and> (\<not> isCorrectDay sch now \<or> \<not> isWithinTimeRange sch now));
               e4 = (if closed then [OutsideWindow] else []);
               w4 = (if closed then [NextPayoutWindow (nextWindow sch now)] else []);
               availableBalance =
                 totalAmount (filter (\<lambda>c. agentId c = agentId' \<and> status c = CPending)
                                (commissions d));
               e5 = (if amount' > availableBalance then [InsufficientBalance availableBalance]
                     else []);
               e6 = (if existingPayout d agentId' \<noteq> None then [DuplicateOutstanding] else []);
               willAutoApprove =
                 (\<not> requireManagerApproval s \<and> amount' \<le> autoApprovalThreshold s);
               willRequireApproval =
                 (requireManagerApproval s \<and> amount' > autoApprovalThreshold s);
               w7 = (if willAutoApprove then
                       WillAutoApprove (autoApprovalThreshold s)
                         # (if availableBalance \<ge> amount' then [PaymentAutomatic]
                            else [PaymentPendingBalance])
                     else if willRequireApproval then
                       [RequiresManagerApproval (autoApprovalThreshold s)]
                     else if requireManagerApproval s then [AllRequireManagerApproval]
                     else []);
               w8 = (if processingFee s > 0 then [ProcessingFeeDeducted (processingFee s)]
                     else []);
               recent = recentPayouts d agentId' now;
               dailyPayoutCount = length recent;
               dailyPayoutAmount = sum_list (map pAmount recent);
               e9 = (if willAutoApprove then
                       (case User_findById d agentId' of
                          Some agent \<Rightarrow> if payoutHoldIsHeld agent then [AgentOnHold] else []
                        | None \<Rightarrow> [])
                       @ (if maxPayoutsPerDay s \<noteq> 0 \<and> dailyPayoutCount \<ge> maxPayoutsPerDay s
                          then [DailyCountLimit (maxPayoutsPerDay s)] else [])
                       @ (if maxPayoutAmountPerDay s \<noteq> 0
                             \<and> dailyPayoutAmount + amount' > maxPayoutAmountPerDay s
                          then [DailyAmountLimit (maxPayoutAmountPerDay s)] else [])
                     else []);
               errors = e1 @ e2 @ e3 @ e4 @ e5 @ e6 @ e9;
               warnings = w4 @ w7 @ w8
           in if errors \<noteq> [] then Failed errors warnings
              else Passed \<lparr>vSettings = s, vWarnings = warnings,
                            vAvailableBalance = availableBalance,
                            vWillAutoApprove = willAutoApprove,
                            vWillRequireApproval = willRequireApproval\<rparr>))"

subsection \<open>payoutSettingsController.validateWithdrawalRequest\<close>

record validation_result =
  isValid :: bool
  vrErrors :: "validation_error list"
  vrWarnings :: "validation_warning list"

text \<open>The standalone validation endpoint. Its look-up of an existing request asks for
  the statuses pending and approved only.\<close>

definition validateWithdrawalRequest ::
  "nat \<Rightarrow> rat \<Rightarrow> nat option \<Rightarrow> db \<Rightarrow> error + validation_result" where
  "validateWithdrawalRequest now amount' agentId' d =
     (if amount' \<le> 0 then Inl InvalidWithdrawalAmount
      else (case agentId' of
              None \<Rightarrow> Inl AgentIdRequired
            | Some a \<Rightarrow>
                (case User_findById d a of
                   None \<Rightarrow> Inl AgentNotFound
                 | Some agent \<Rightarrow>
                     (let st = settings d;
                          e1 = (case st of
                                  Some s \<Rightarrow>
                                    (if amount' < minWithdrawalAmount s
                                     then [BelowMinimum (minWithdrawalAmount s)] else [])
                                    @ (if amount' > maxWithdrawalAmount s
                                       then [AboveMaximum (maxWithdrawalAmount s)] else [])
                                    @ (if globalPayoutHold s then [GlobalHold] else [])
                                | None \<Rightarrow> []);
                          e2 = (if payoutHoldIsHeld agent then [AgentOnHold] else []);
                          closed = (case st of
                                      Some s \<Rightarrow>
                                        enabled (payoutSchedule s)
                                        \<and> \<not> (isCorrectDay (payoutSchedule s) now
                                              \<and> isWithinTimeRange (payoutSchedule s) now
                                              \<and> \<not> globalPayoutHold s)
                                    | None \<Rightarrow> False);
                          e3 = (if closed then [OutsideWindow] else []);
                          w3 = (case st of
                                  Some s \<Rightarrow>
                                    if closed then [NextPayoutWindow (nextWindow (payoutSchedule s) now)]
                                    else []
                                | None \<Rightarrow> []);
                          availableBalance =
                            totalAmount (filter (\<lambda>c. agentId c = a \<and> status c = CPending)
                                           (commissions d));
                          e4 = (if amount' > availableBalance
                                then [InsufficientBalance availableBalance] else []);
                          e5 = (if find (\<lambda>p. pAgentId p = a
                                             \<and> (pStatus p = Pending \<or> pStatus p = Approved))
                                     (payoutRequests d) \<noteq> None
                                then [DuplicateOutstanding] else []);
                          w6 = (case st of
                                  Some s \<Rightarrow>
                                    (if requireManagerApproval s \<and> amount' > autoApprovalThreshold s
                                     then [RequiresManagerApproval (autoApprovalThreshold s)] else [])
                                    @ (if processingFee s > 0
                                       then [ProcessingFeeDeducted (processingFee s)] else [])
                                | None \<Rightarrow> []);
                          errors = e1 @ e2 @ e3 @ e4 @ e5
                      in Inr \<lparr>isValid = (errors = []), vrErrors = errors,
                               vrWarnings = w3 @ w6\<rparr>))))"

subsection \<open>commissionController.createPayoutRequest\<close>

text \<open>\<open>/^(\+254|254|0)[17]\d{8}$/\<close>\<close>

definition localNumber :: "string \<Rightarrow> bool" where
  "localNumber s =
     (length s = 9 \<and> (hd s = CHR ''1'' \<or> hd s = CHR ''7'') \<and> list_all isDigit (tl s))"

definition mpesaRegex :: "string \<Rightarrow> bool" where
  "mpesaRegex s =
     ((take 4 s = ''+254'' \<and> localNumber (drop 4 s))
      \<or> (take 3 s = ''254'' \<and> localNumber (drop 3 s))
      \<or> (take 1 s = ''0'' \<and> localNumber (drop 1 s)))"

text \<open>\<open>PayoutRequest.create\<close>: the validators of the schema (amount min 1, method in
  the enum, account details required), a fresh \<open>_id\<close>, the timestamp, the insert.\<close>

definition PayoutRequest_create ::
  "nat \<Rightarrow> payout_request \<Rightarrow> db \<Rightarrow> (payout_request \<times> db) option" where
  "PayoutRequest_create now doc d =
     (if 1 \<le> pAmount doc \<and> (pMethod doc = ''mpesa'' \<or> pMethod doc = ''bank'')
         \<and> accountDetails doc \<noteq> [] then
        (let r = doc\<lparr>pid := nextId d, pCreatedAt := now\<rparr>
         in Some (r, d\<lparr>payoutRequests := payoutRequests d @ [r], nextId := Suc (nextId d)\<rparr>))
      else None)"

fun showNat :: "nat \<Rightarrow> string" where
  "showNat n = (if n < 10 then [digitChar n] else showNat (n div 10) @ [digitChar (n mod 10)])"

declare showNat.simps [simp del]

text \<open>\<open>settings && !settings.requireManagerApproval && amount <= settings.autoApprovalThreshold\<close>,
  where \<open>settings\<close> is that of \<open>req.payoutValidation\<close>.\<close>

definition shouldAutoApprove :: "payout_validation option \<Rightarrow> rat \<Rightarrow> bool" where
  "shouldAutoApprove pv amount' =
     (case pv of
        None \<Rightarrow> False
      | Some v \<Rightarrow> \<not> requireManagerApproval (vSettings v)
                  \<and> amount' \<le> autoApprovalThreshold (vSettings v))"

text \<open>The document passed to \<open>PayoutRequest.create\<close>.\<close>

definition payoutRequestData ::
  "nat \<Rightarrow> nat \<Rightarrow> rat \<Rightarrow> string \<Rightarrow> string \<Rightarrow> payout_validation option \<Rightarrow> payout_request" where
  "payoutRequestData now agentId' amount' method' accountDetails' pv =
     (let auto = shouldAutoApprove pv amount'
      in \<lparr>pid = 0, pAgentId = agentId', pAmount = amount', pMethod = method',
           accountDetails = trim accountDetails',
           pStatus = (if auto then Approved else Pending),
           processedAt = (if auto then Some now else None),
           processedBy = (if auto then Some agentId' else None),
           pNotes = (if auto then ''Auto-approved based on admin settings'' else []),
           rejectionReason = None, commissionIds = [],
           metadata = Some
             \<lparr>mSettingsVersion = map_option (\<lambda>v. sid (vSettings v)) pv,
              mProcessingFee = (case pv of Some v \<Rightarrow> processingFee (vSettings v) | None \<Rightarrow> 0),
              mValidatedAt = now,
              mValidationWarnings = (case pv of Some v \<Rightarrow> vWarnings v | None \<Rightarrow> []),
              mAutoApproved = auto,
              mAutoApprovalThreshold =
                (case pv of Some v \<Rightarrow> autoApprovalThreshold (vSettings v) | None \<Rightarrow> 0)\<rparr>,
           pCreatedAt = 0\<rparr>)"

text \<open>The block "If auto-approved, immediately process payment": the same walk as in
  the manual pay, with the automatic tags. When the pending balance does not cover the
  amount, or when the block throws, the request is saved with a note and stays
  approved. The note of the \<open>catch\<close> ends with the message of the error caught, which
  is left out here.\<close>

definition autoPay :: "nat \<Rightarrow> payout_request \<Rightarrow> db \<Rightarrow> db" where
  "autoPay now payoutRequest d =
     (let pending = pendingCommissions d (pAgentId payoutRequest);
          totalPendingAmount = totalAmount (map cdoc pending)
      in if totalPendingAmount \<ge> pAmount payoutRequest then
           (let a = allocate True (pAmount payoutRequest) pending
            in (case createAll now (newCommissions a) d of
                  None \<Rightarrow>
                    PayoutRequest_save
                      (payoutRequest\<lparr>pNotes := ''Auto-approved but auto-payment failed''\<rparr>) d
                | Some d1 \<Rightarrow>
                    PayoutRequest_save
                      (payoutRequest
                         \<lparr>pStatus := Paid, commissionIds := paidCommissionIds a,
                          pNotes := ''Auto-approved and auto-paid. Processed ''
                                      @ showNat (length (paidCommissionIds a))
                                      @ '' commission(s).''\<rparr>)
                      (saveAllPaid now (pid payoutRequest) (commissionsToUpdate a) d1)))
         else
           PayoutRequest_save
             (payoutRequest
                \<lparr>pNotes := ''Auto-approved but insufficient commission balance for auto-payment''\<rparr>)
             d)"

record create_response =
  crPayoutRequest :: payout_request
  crAutoApproved :: bool
  crAutoPaid :: bool

text \<open>The arguments: the clock, \<open>req.user.id\<close>, the \<open>amount\<close>, \<open>method\<close> and
  \<open>accountDetails\<close> of the request body (an absent field is \<open>0\<close> or the empty string:
  all are falsy), and \<open>req.payoutValidation\<close>.\<close>

definition createPayoutRequest ::
  "nat \<Rightarrow> nat \<Rightarrow> rat \<Rightarrow> string \<Rightarrow> string \<Rightarrow> payout_validation option \<Rightarrow> db
     \<Rightarrow> (error + create_response) \<times> db" where
  "createPayoutRequest now agentId' amount' method' accountDetails' pv d =
     (if amount' = 0 \<or> method' = [] \<or> accountDetails' = [] then (Inl MissingFields, d)
      else if method' \<noteq> ''mpesa'' \<and> method' \<noteq> ''bank'' then (Inl InvalidPaymentMethod, d)
      else if method' = ''mpesa'' \<and> \<not> mpesaRegex (trim accountDetails') then
        (Inl InvalidMpesaNumber, d)
      else if (case pv of
                 Some v \<Rightarrow> processingFee (vSettings v) > 0 \<and> amount' \<le> processingFee (vSettings v)
               | None \<Rightarrow> False) then
        (Inl (AmountNotAboveFee (case pv of Some v \<Rightarrow> processingFee (vSettings v) | None \<Rightarrow> 0)), d)
      else
        (case PayoutRequest_create now
                (payoutRequestData now agentId' amount' method' accountDetails' pv) d of
           None \<Rightarrow> (Inl ValidationFailed, d)
         | Some (payoutRequest, d1) \<Rightarrow>
             (let auto = shouldAutoApprove pv amount';
                  d2 = (if auto then autoPay now payoutRequest d1 else d1)
              in (case PayoutRequest_findById d2 (pid payoutRequest) of
                    None \<Rightarrow> (Inl PayoutNotFound, d2)
                  | Some finalPayoutRequest \<Rightarrow>
                      (Inr \<lparr>crPayoutRequest = finalPayoutRequest, crAutoApproved = auto,
                            crAutoPaid = (auto \<and> pStatus finalPayoutRequest = Paid)\<rparr>,
                       d2)))))"


text \<open>The route \<open>POST /payout-requests\<close>: the validation middleware, then the
  controller.\<close>

definition postPayoutRequest ::
  "nat \<Rightarrow> nat \<Rightarrow> rat \<Rightarrow> string \<Rightarrow> string \<Rightarrow> db \<Rightarrow> (error + create_response) \<times> db" where
  "postPayoutRequest now agentId' amount' method' accountDetails' d =
     (case validatePayoutRequest now agentId' amount' d of
        NoSettings \<Rightarrow> createPayoutRequest now agentId' amount' method' accountDetails' None d
      | Failed errors warnings \<Rightarrow> (Inl (ValidationErrors errors warnings), d)
      | Passed v \<Rightarrow> createPayoutRequest now agentId' amount' method' accountDetails' (Some v) d)"


definition paidVersion :: "nat \<Rightarrow> nat \<Rightarrow> commission list \<Rightarrow> commission \<Rightarrow> commission" where
  "paidVersion now rid ups x =
     (case find (\<lambda>u. cid u = cid x) ups of Some u \<Rightarrow> markPaid now rid u | None \<Rightarrow> x)"



section \<open>Examples\<close>

definition ex_settings :: payout_settings where
  "ex_settings = defaultSettings 1"

definition ex_zero_rate :: payout_settings where
  "ex_zero_rate = (defaultSettings 1)\<lparr>commissionRates := \<lparr>deliveryAmount = 200, agentOrder = 0\<rparr>\<rparr>"

definition ex_db :: db where
  "ex_db =
     \<lparr>orders = [\<lparr>oid = 10, totalPrice = 10000, orderItems = Some [\<lparr>quantity = 2\<rparr>, \<lparr>quantity = 1\<rparr>]\<rparr>],
      users = [\<lparr>uid = 20, role = ''agent'', payoutHoldIsHeld = False\<rparr>],
      commissions = [], payoutRequests = [], settings = Some ex_settings, nextId = 100\<rparr>"

definition ex_descr :: describe where
  "ex_descr = (\<lambda>t r n total a. ''commission'')"

definition ex_cancelled :: commission where
  "ex_cancelled =
     \<lparr>cid = 7, orderId = 10, agentId = 20, ctype = Delivery, amount = 600,
      status = CCancelled, orderTotal = 10000, commissionRate = 200, isFixedAmount = True,
      deliveryCount = 3, description = ''commission'', paidAt = None,
      cancelledAt = Some 50, payoutRequestId = None, settingsVersion = Some 1,
      createdAt = 40\<rparr>"

text \<open>The example of the specification: pending entries of 100, 150 and 80, oldest
  first, and an approved request of 180.\<close>

definition ex_entry :: "nat \<Rightarrow> nat \<Rightarrow> rat \<Rightarrow> nat \<Rightarrow> commission" where
  "ex_entry i ord a t =
     \<lparr>cid = i, orderId = ord, agentId = 20, ctype = Delivery, amount = a,
      status = CPending, orderTotal = 1000, commissionRate = 200, isFixedAmount = True,
      deliveryCount = 1, description = ''d'', paidAt = None, cancelledAt = None,
      payoutRequestId = None, settingsVersion = Some 1, createdAt = t\<rparr>"

definition ex_request :: payout_request where
  "ex_request =
     \<lparr>pid = 50, pAgentId = 20, pAmount = 180, pMethod = ''mpesa'',
      accountDetails = ''0712345678'', pStatus = Approved, processedAt = None,
      processedBy = None, pNotes = [], rejectionReason = None, commissionIds = [],
      metadata = None, pCreatedAt = 40\<rparr>"

definition ex_pay_db :: db where
  "ex_pay_db =
     ex_db\<lparr>orders := orders ex_db @ [\<lparr>oid = 11, totalPrice = 1000, orderItems = None\<rparr>,
                                   \<lparr>oid = 13, totalPrice = 1000, orderItems = None\<rparr>],
           commissions := [ex_entry 1 11 100 10, ex_entry 2 10 150 20, ex_entry 3 13 80 30],
           payoutRequests := [ex_request]\<rparr>"




text \<open>The database after the example request has been paid: the entry of order 10 has
  been split.\<close>

definition ex_split_db :: db where
  "ex_split_db = snd (processPayoutRequest 99 1 50 ActPay [] [] ex_pay_db)"

text \<open>The example database without its payout request, and the result of validating
  a request of 180 against it.\<close>

definition ex_open_db :: db where
  "ex_open_db = ex_pay_db\<lparr>payoutRequests := []\<rparr>"

definition ex_validation :: payout_validation where
  "ex_validation =
     \<lparr>vSettings = ex_settings, vWarnings = [WillAutoApprove 1000, PaymentAutomatic],
      vAvailableBalance = 330, vWillAutoApprove = True, vWillRequireApproval = False\<rparr>"

text \<open>A database in which no settings document has been created yet.\<close>

definition ex_bare_db :: db where
  "ex_bare_db = ex_db\<lparr>settings := None\<rparr>"

text \<open>A schedule whose times are written without a leading zero; the pattern of the
  schema, \<open>/^([0-1]?[0-9]|2[0-3]):[0-5][0-9]$/\<close>, admits them, and the check of
  the save hook (\<open>startTime >= endTime\<close> on strings) passes.\<close>

definition ex_unpadded :: payout_settings where
  "ex_unpadded =
     ex_settings\<lparr>payoutSchedule :=
        \<lparr>enabled = True, dayOfWeek = 5, startTime = ''7:00'', endTime = ''9:00''\<rparr>\<rparr>"

text \<open>Friday 2 January 1970, 08:30.\<close>

definition ex_friday_0830 :: nat where
  "ex_friday_0830 = 117000000"

section \<open>Theorems\<close>

subsection \<open>Whole numbers are exact\<close>

lemma roundHalfEven_of_int [simp]: "roundHalfEven (of_int n) = n"
  by (simp add: roundHalfEven_def)

lemma fl_of_int:
  assumes "\<bar>n\<bar> < 2 ^ 53"
  shows "fl (of_int n) = of_int n"
proof (cases "n = 0")
  case True
  then show ?thesis by (simp add: fl_def)
next
  case False
  then have one: "1 \<le> \<bar>n\<bar>" by simp
  have fle: "\<lfloor>\<bar>rat_of_int n\<bar>\<rfloor> = \<bar>n\<bar>" by (simp flip: of_int_abs)
  have "nat \<bar>n\<bar> < 2 ^ 53" using assms by (simp add: nat_less_iff)
  then have "floorlog 2 (nat \<bar>n\<bar>) \<le> 53" by (simp add: floorlog_le_iff)
  then have e: "exponent (of_int n) - 52 \<le> 0"
    using one unfolding exponent_def fle by simp
  define k where "k = nat (- (exponent (of_int n) - 52))"
  have p: "pow2 (exponent (of_int n) - 52) = 1 / 2 ^ k"
  proof (cases "exponent (of_int n) - 52 = 0")
    case True
    then show ?thesis by (simp add: pow2_def k_def)
  next
    case False
    with e show ?thesis by (simp add: pow2_def k_def)
  qed
  have "rat_of_int n / (1 / 2 ^ k) = of_int (n * 2 ^ k)" by simp
  then have "roundHalfEven (rat_of_int n / (1 / 2 ^ k)) = n * 2 ^ k"
    by (simp only: roundHalfEven_of_int)
  then show ?thesis using False by (simp add: fl_def p Let_def)
qed

lemma fl_safe: "isSafeInteger x \<Longrightarrow> fl x = x"
proof -
  assume a: "isSafeInteger x"
  then obtain n where n: "x = of_int n" by (auto simp: isSafeInteger_def elim: Ints_cases)
  with a have "\<bar>rat_of_int n\<bar> < 2 ^ 53" by (simp add: isSafeInteger_def)
  then have "rat_of_int \<bar>n\<bar> < of_int (2 ^ 53)" by simp
  then have "\<bar>n\<bar> < 2 ^ 53" by (simp only: of_int_less_iff)
  from fl_of_int [OF this] n show ?thesis by simp
qed

lemma dsub_exact:
  "a \<in> \<int> \<Longrightarrow> b \<in> \<int> \<Longrightarrow> \<bar>a - b\<bar> < 2 ^ 53 \<Longrightarrow> dsub a b = a - b"
  unfolding dsub_def by (rule fl_safe) (simp add: isSafeInteger_def)






subsection \<open>The rate calculator\<close>

lemma Math_round_of_int: "Math_round (of_int n) = of_int n"
  unfolding Math_round_def by (simp add: floor_unique)

lemma Math_round_300: "Math_round 300 = 300"
  using Math_round_of_int [of 300] by simp

text \<open>
  C5, at the policy whose agent-order fraction is 0 (the schema admits it: min 0).
  The calculator reads the fraction through \<open>|| 0.03\<close>, so the configured 0 is
  replaced by 0.03: on an order total of 10000 the amount is 300 and the recorded rate
  is 0.03, not the order total times the policy's fraction (0) with the fraction
  recorded as the rate.
\<close>

theorem calculateCommission_zero_rate:
  "fst (calculateCommission True 10000 AgentOrder 1 (ex_db\<lparr>settings := Some ex_zero_rate\<rparr>))
     = \<lparr>cdAmount = 300, cdRate = 3 / 100, cdIsFixedAmount = False, cdDeliveryCount = 1,
        cdSettingsId = Some 1\<rparr>"
  by (simp add: calculateCommission_def getCurrentSettings_def ex_db_def ex_zero_rate_def
      defaultSettings_def Math_round_300)

subsection \<open>createCommission\<close>

lemma find_Some_mem: "find P xs = Some x \<Longrightarrow> x \<in> set xs \<and> P x"
  by (induction xs) (auto split: if_splits)

lemma find_None_filter: "find P xs = None \<Longrightarrow> filter P xs = []"
  by (induction xs) (auto split: if_splits)

lemma find_mem_not_None: "x \<in> set xs \<Longrightarrow> P x \<Longrightarrow> find P xs \<noteq> None"
  by (induction xs) auto

lemma createCommission_existing:
  assumes "Order_findById d o' = Some ord" and "User_findById d a' = Some ag"
    and "role ag = ''agent''" and "find (sameKey o' a' t') (commissions d) = Some e"
  shows "createCommission descr up now o' a' t' d = (Inr e, d)"
  using assms by (simp add: createCommission_def)

text \<open>
  C10: when a cancelled entry exists for (orderId, agentId, type) and every entry of
  that key is cancelled (none is pending or paid), createCommission, called for a
  resolvable order and an agent-role account, returns a stored cancelled entry of that
  key (the first the lookup finds) and the database is left as it was: no entry is
  created and none is changed. The lookup does not look at the status.
\<close>

theorem createCommission_returns_cancelled:
  assumes "Order_findById d o' = Some ord" and "User_findById d a' = Some ag"
    and "role ag = ''agent''"
    and "c \<in> set (commissions d)" and "sameKey o' a' t' c" and "status c = CCancelled"
    and "\<forall>x \<in> set (commissions d). sameKey o' a' t' x \<longrightarrow> status x = CCancelled"
  shows "\<exists>e. createCommission descr up now o' a' t' d = (Inr e, d)
             \<and> find (sameKey o' a' t') (commissions d) = Some e
             \<and> e \<in> set (commissions d) \<and> sameKey o' a' t' e \<and> status e = CCancelled"
proof -
  from assms(4,5) obtain e where e: "find (sameKey o' a' t') (commissions d) = Some e"
    using find_mem_not_None by fastforce
  then have mem: "e \<in> set (commissions d)" and key: "sameKey o' a' t' e"
    using find_Some_mem by fastforce+
  with assms(7) have "status e = CCancelled" by blast
  moreover have "createCommission descr up now o' a' t' d = (Inr e, d)"
    using createCommission_existing [OF assms(1-3) e] .
  ultimately show ?thesis using e mem key by blast
qed

theorem createCommission_returns_cancelled_witness:
  "createCommission ex_descr True 60 10 20 Delivery (ex_db\<lparr>commissions := [ex_cancelled]\<rparr>)
     = (Inr ex_cancelled, ex_db\<lparr>commissions := [ex_cancelled]\<rparr>)"
proof -
  let ?d = "ex_db\<lparr>commissions := [ex_cancelled]\<rparr>"
  have 1: "Order_findById ?d 10 = Some (hd (orders ex_db))"
    by (simp add: Order_findById_def ex_db_def)
  have 2: "User_findById ?d 20 = Some (hd (users ex_db))"
    by (simp add: User_findById_def ex_db_def)
  have 3: "role (hd (users ex_db)) = ''agent''" by (simp add: ex_db_def)
  have 4: "ex_cancelled \<in> set (commissions ?d)" by simp
  have 5: "sameKey 10 20 Delivery ex_cancelled" by (simp add: sameKey_def ex_cancelled_def)
  have 6: "status ex_cancelled = CCancelled" by (simp add: ex_cancelled_def)
  have 7: "\<forall>x \<in> set (commissions ?d). sameKey 10 20 Delivery x \<longrightarrow> status x = CCancelled"
    using 6 by simp
  from createCommission_returns_cancelled [OF 1 2 3 4 5 6 7, of ex_descr True 60]
  obtain e where "createCommission ex_descr True 60 10 20 Delivery ?d = (Inr e, ?d)"
    and "e \<in> set (commissions ?d)" by blast
  then show ?thesis by simp
qed

lemma Math_round_nonneg: "0 \<le> x \<Longrightarrow> 0 \<le> Math_round x"
  unfolding Math_round_def by simp

text \<open>
  C9 fails on the code: with the policy store down, createCommission on an agent
  order of total 10000 does not fail; it stores a pending entry of amount 300 computed
  from the substituted rate 0.03, with no settings version.
\<close>

theorem createCommission_store_down_counterexample:
  "fst (createCommission ex_descr False 60 10 20 AgentOrder ex_db)
     = Inr \<lparr>cid = 100, orderId = 10, agentId = 20, ctype = AgentOrder, amount = 300,
            status = CPending, orderTotal = 10000, commissionRate = 3 / 100,
            isFixedAmount = False, deliveryCount = 1, description = ''commission'',
            paidAt = None, cancelledAt = None, payoutRequestId = None,
            settingsVersion = None, createdAt = 60\<rparr>"
  by (simp add: createCommission_def calculateCommission_def getCurrentSettings_def
      Commission_create_def schema_ok_def Order_findById_def User_findById_def
      sameKey_def ex_db_def ex_descr_def Math_round_300 Let_def)

text \<open>
  C9 as amended: when the policy store cannot be loaded, commission creation does not
  fail on that account. For a resolvable order with a non-negative total (and, for a
  delivery, at least one item), an agent-role account and no entry yet for the key,
  createCommission appends one pending entry computed from the substituted defaults:
  200 per delivered item for a delivery, the order total times 0.03 rounded for an
  agent order; the default is recorded as the rate and no settings version is recorded.
\<close>

theorem createCommission_store_down:
  assumes "Order_findById d o' = Some ord" and "User_findById d a' = Some ag"
    and "role ag = ''agent''" and "find (sameKey o' a' t') (commissions d) = None"
    and "0 \<le> totalPrice ord" and "t' = Delivery \<longrightarrow> 1 \<le> itemCount ord"
  shows "\<exists>c d'. createCommission descr False now o' a' t' d = (Inr c, d')
             \<and> commissions d' = commissions d @ [c]
             \<and> status c = CPending
             \<and> amount c = (if t' = Delivery then 200 * of_nat (itemCount ord)
                           else Math_round (totalPrice ord * (3 / 100)))
             \<and> commissionRate c = (if t' = Delivery then 200 else 3 / 100)
             \<and> settingsVersion c = None"
proof (cases "t' = Delivery")
  case True
  with assms show ?thesis
    by (simp add: createCommission_def calculateCommission_def getCurrentSettings_def
        Commission_create_def schema_ok_def Let_def)
next
  case False
  have "0 \<le> Math_round (totalPrice ord * (3 / 100))"
    using assms(5) by (intro Math_round_nonneg) simp
  with False assms show ?thesis
    by (simp add: createCommission_def calculateCommission_def getCurrentSettings_def
        Commission_create_def schema_ok_def Let_def)
qed

theorem createCommission_store_down_witness:
  "\<exists>c d'. createCommission ex_descr False 60 10 20 Delivery ex_db = (Inr c, d')
      \<and> commissions d' = commissions ex_db @ [c] \<and> amount c = 600
      \<and> commissionRate c = 200 \<and> settingsVersion c = None"
proof -
  have 1: "Order_findById ex_db 10 = Some (hd (orders ex_db))"
    by (simp add: Order_findById_def ex_db_def)
  have 2: "User_findById ex_db 20 = Some (hd (users ex_db))"
    by (simp add: User_findById_def ex_db_def)
  have 3: "role (hd (users ex_db)) = ''agent''" by (simp add: ex_db_def)
  have 4: "find (sameKey 10 20 Delivery) (commissions ex_db) = None" by (simp add: ex_db_def)
  have 5: "0 \<le> totalPrice (hd (orders ex_db))" by (simp add: ex_db_def)
  have n: "itemCount (hd (orders ex_db)) = 3" by (simp add: itemCount_def ex_db_def)
  then have 6: "Delivery = Delivery \<longrightarrow> 1 \<le> itemCount (hd (orders ex_db))" by simp
  from createCommission_store_down [OF 1 2 3 4 5 6, of ex_descr 60] n
  show ?thesis by fastforce
qed


subsection \<open>The allocation loop\<close>



text \<open>Amounts that are not whole numbers: entries of 1.1 and 2.2 and a request of 3.3,
  each the double nearest to the decimal. \<open>3.3 - 1.1\<close> is 2.1999999999999997 in
  doubles, below 2.2: the walk pays the first entry in full and splits the second.\<close>

lemma fractional_example:
  assumes "amount (cdoc p) = fl (11 / 10)" and "amount (cdoc q) = fl (22 / 10)"
  shows "allocate auto (fl (33 / 10)) [p, q] =
           \<lparr>remainingAmount = 0, paidCommissionIds = [cid (cdoc p), cid (cdoc q)],
            commissionsToUpdate =
              [cdoc p, splitPaid auto (cdoc q) (4953959590107545 / 2251799813685248)],
            newCommissions =
              [remainderDoc auto q
                 (dsub (fl (22 / 10)) (4953959590107545 / 2251799813685248))]\<rparr>"
proof -
  have 1: "\<not> fl (33 / 10) \<le> 0" by code_simp
  have 2: "fl (11 / 10) \<le> fl (33 / 10)" by code_simp
  have 3: "dsub (fl (33 / 10)) (fl (11 / 10)) = 4953959590107545 / 2251799813685248"
    by code_simp
  have 4: "\<not> fl (22 / 10) \<le> 4953959590107545 / 2251799813685248" by code_simp
  show ?thesis
    apply (simp only: allocate.simps assms 1 2 3 if_False if_True Let_def)
    apply (simp only: 4 if_False)
    apply simp
    done
qed

subsection \<open>The saves\<close>








lemma cdoc_populate [simp]: "cdoc (populate d c) = c"
  by (simp add: populate_def)

lemma cdoc_pendingCommissions [simp]: "map cdoc (pendingCommissions d a) = pendingDocs d a"
  by (simp add: pendingCommissions_def comp_def)

lemma markPaid_cid [simp]: "cid (markPaid now rid c) = cid c"
  by (simp add: markPaid_def)


lemma saveAllPaid_rest:
  "payoutRequests (saveAllPaid now rid ups d) = payoutRequests d
   \<and> nextId (saveAllPaid now rid ups d) = nextId d
   \<and> orders (saveAllPaid now rid ups d) = orders d
   \<and> users (saveAllPaid now rid ups d) = users d
   \<and> settings (saveAllPaid now rid ups d) = settings d"
  by (induction ups arbitrary: d) (simp_all add: saveAllPaid_def Commission_save_def)



lemma paidVersion_Nil [simp]: "paidVersion now rid [] x = x"
  by (simp add: paidVersion_def)


lemma paidVersion_cid [simp]: "cid (paidVersion now rid ups x) = cid x"
  by (auto simp: paidVersion_def split: option.splits dest: find_Some_mem)




lemma markAsPaid_notes: "pNotes (markAsPaid now u r) \<noteq> []"
  by (simp add: markAsPaid_def)

lemma finish_markAsPaid:
  "finish act notes' (markAsPaid now u r) d
     = (Inr (markAsPaid now u r), PayoutRequest_save (markAsPaid now u r) d)"
  by (simp add: finish_def markAsPaid_notes)















subsection \<open>The ledger after a settlement\<close>












subsection \<open>processPayoutRequest, action pay, and the automatic payment\<close>

lemma dsub_zero: "A \<in> \<int> \<Longrightarrow> \<bar>A\<bar> < 2 ^ 53 \<Longrightarrow> dsub A 0 = A"
  using dsub_exact [of A 0] by simp

lemma pay_unfold:
  assumes req: "PayoutRequest_findById d rid = Some r"
    and ag: "User_findById d (pAgentId r) = Some agent"
    and st: "pStatus r = Pending \<or> pStatus r = Approved"
    and int: "pAmount r \<in> \<int>" "\<bar>pAmount r\<bar> < 2 ^ 53"
    and enough: "pAmount r \<le> totalAmount (pendingDocs d (pAgentId r))"
    and al: "paidCommissionIds (allocate False (pAmount r) (pendingCommissions d (pAgentId r))) = ids"
      "remainingAmount (allocate False (pAmount r) (pendingCommissions d (pAgentId r))) = 0"
      "createAll now (newCommissions (allocate False (pAmount r)
          (pendingCommissions d (pAgentId r)))) d = Some d1"
      "saveAllPaid now rid (commissionsToUpdate (allocate False (pAmount r)
          (pendingCommissions d (pAgentId r)))) d1 = d2"
  shows "processPayoutRequest now u rid ActPay notes' reason' d
           = (Inr (markAsPaid now u (r\<lparr>commissionIds := ids\<rparr>)),
              PayoutRequest_save (markAsPaid now u (r\<lparr>commissionIds := ids\<rparr>)) d2)"
proof -
  have rid: "pid r = rid"
    using find_Some_mem [of "\<lambda>x. pid x = rid" "payoutRequests d" r] req
    by (simp add: PayoutRequest_findById_def)
  have uid: "uid agent = pAgentId r"
    using find_Some_mem [of "\<lambda>x. uid x = pAgentId r" "users d" agent] ag
    by (simp add: User_findById_def)
  have proc: "processPayoutRequest now u rid ActPay notes' reason' d
                = pay now u notes' r (Some agent) d"
    using req st ag by (auto simp: processPayoutRequest_def)
  have rd: "payRead r (Some agent) d = Inr (pendingCommissions d (pAgentId r))"
    using st enough by (auto simp: payRead_def uid Let_def)
  have wr: "payWrite now u notes' r (pendingCommissions d (pAgentId r)) d
              = (Inr (markAsPaid now u (r\<lparr>commissionIds := ids\<rparr>)),
                 PayoutRequest_save (markAsPaid now u (r\<lparr>commissionIds := ids\<rparr>)) d2)"
    by (simp add: payWrite_def Let_def al rid dsub_zero [OF int] finish_markAsPaid)
  show ?thesis by (simp add: proc pay_def rd wr)
qed





lemma saved_commissions [simp]: "commissions (PayoutRequest_save r' d2) = commissions d2"
  by (simp add: PayoutRequest_save_def)


subsection \<open>The example of the specification\<close>

lemma fl_numeral: "numeral k < (2 :: rat) ^ 53 \<Longrightarrow> fl (numeral k) = numeral k"
  by (rule fl_safe) (simp add: isSafeInteger_def)

lemma ex_pending:
  "pendingDocs ex_pay_db 20 = [ex_entry 1 11 100 10, ex_entry 2 10 150 20, ex_entry 3 13 80 30]"
  by (simp add: pendingDocs_def ex_pay_db_def ex_db_def ex_entry_def)




lemma ex_pay_req: "PayoutRequest_findById ex_pay_db 50 = Some ex_request"
  by (simp add: PayoutRequest_findById_def ex_pay_db_def ex_request_def)

lemma ex_pay_agent:
  "User_findById ex_pay_db 20 = Some \<lparr>uid = 20, role = ''agent'', payoutHoldIsHeld = False\<rparr>"
  by (simp add: User_findById_def ex_pay_db_def ex_db_def)

lemma ex_populate:
  "map (populate ex_pay_db) [ex_entry 1 11 100 10, ex_entry 2 10 150 20, ex_entry 3 13 80 30]
     = [\<lparr>cdoc = ex_entry 1 11 100 10,
         orderRef = Some \<lparr>oid = 11, totalPrice = 1000, orderItems = None\<rparr>,
         agentRef = Some \<lparr>uid = 20, role = ''agent'', payoutHoldIsHeld = False\<rparr>,
         settingsRef = Some ex_settings\<rparr>,
        \<lparr>cdoc = ex_entry 2 10 150 20,
         orderRef = Some \<lparr>oid = 10, totalPrice = 10000,
                           orderItems = Some [\<lparr>quantity = 2\<rparr>, \<lparr>quantity = 1\<rparr>]\<rparr>,
         agentRef = Some \<lparr>uid = 20, role = ''agent'', payoutHoldIsHeld = False\<rparr>,
         settingsRef = Some ex_settings\<rparr>,
        \<lparr>cdoc = ex_entry 3 13 80 30,
         orderRef = Some \<lparr>oid = 13, totalPrice = 1000, orderItems = None\<rparr>,
         agentRef = Some \<lparr>uid = 20, role = ''agent'', payoutHoldIsHeld = False\<rparr>,
         settingsRef = Some ex_settings\<rparr>]"
  by (simp add: populate_def Order_findById_def User_findById_def ex_pay_db_def ex_db_def
      ex_entry_def ex_settings_def defaultSettings_def)

lemma ex_total:
  "totalAmount [ex_entry 1 11 100 10, ex_entry 2 10 150 20, ex_entry 3 13 80 30] = 330"
  by (simp add: totalAmount_def dadd_def fl_numeral ex_entry_def)

lemma ex_request_fields:
  "pid ex_request = 50" "pAgentId ex_request = 20" "pAmount ex_request = 180"
  "pStatus ex_request = Approved"
  by (simp_all add: ex_request_def)

lemma ex_entry_sel:
  "cid (ex_entry i ord a t) = i" "amount (ex_entry i ord a t) = a"
  by (simp_all add: ex_entry_def)

lemma ex_allocate:
  "allocate auto 180 (pendingCommissions ex_pay_db 20) =
     \<lparr>remainingAmount = 0, paidCommissionIds = [1, 2],
      commissionsToUpdate = [ex_entry 1 11 100 10, splitPaid auto (ex_entry 2 10 150 20) 80],
      newCommissions = [remainderDoc auto (populate ex_pay_db (ex_entry 2 10 150 20)) 70]\<rparr>"
proof -
  have s: "dsub 180 100 = 80" "dsub 150 80 = 70" by (simp_all add: dsub_def fl_numeral)
  show ?thesis
    by (simp add: pendingCommissions_def ex_pending ex_entry_sel s)
qed

lemma ex_remainder:
  "remainderDoc auto (populate ex_pay_db (ex_entry 2 10 150 20)) 70
     = Some ((ex_entry 0 10 70 0)
               \<lparr>isFixedAmount := False,
                 description := (if auto then ''d (Auto-Split - Remaining)''
                                 else ''d (Split - Remaining)''),
                 settingsVersion := (if auto then Some 1 else None)\<rparr>)"
  by (simp add: remainderDoc_def populate_def Order_findById_def User_findById_def
      ex_pay_db_def ex_db_def ex_entry_def tagged_def ex_settings_def defaultSettings_def)

lemma ex_writes:
  "createAll 99 (newCommissions (allocate auto 180 (pendingCommissions ex_pay_db 20))) ex_pay_db
     = Some (ex_pay_db\<lparr>commissions := commissions ex_pay_db @
               [(ex_entry 100 10 70 99)
                  \<lparr>isFixedAmount := False,
                    description := (if auto then ''d (Auto-Split - Remaining)''
                                    else ''d (Split - Remaining)''),
                    settingsVersion := (if auto then Some 1 else None)\<rparr>],
             nextId := 101\<rparr>)"
proof -
  have n: "nextId ex_pay_db = 100" by (simp add: ex_pay_db_def ex_db_def)
  have "createAll 99 (newCommissions (allocate auto 180 (pendingCommissions ex_pay_db 20)))
          ex_pay_db
      = createAll 99
          [Some ((ex_entry 0 10 70 0)
               \<lparr>isFixedAmount := False,
                 description := (if auto then ''d (Auto-Split - Remaining)''
                                 else ''d (Split - Remaining)''),
                 settingsVersion := (if auto then Some 1 else None)\<rparr>)] ex_pay_db"
    by (simp only: ex_allocate allocation.simps ex_remainder)
  also have "\<dots> = Some (ex_pay_db\<lparr>commissions := commissions ex_pay_db @
               [(ex_entry 100 10 70 99)
                  \<lparr>isFixedAmount := False,
                    description := (if auto then ''d (Auto-Split - Remaining)''
                                    else ''d (Split - Remaining)''),
                    settingsVersion := (if auto then Some 1 else None)\<rparr>],
             nextId := 101\<rparr>)"
    by (simp add: Commission_create_def schema_ok_def Let_def ex_entry_def n)
  finally show ?thesis .
qed

lemma ex_pay_result:
  "processPayoutRequest 99 1 50 ActPay [] [] ex_pay_db
     = (Inr (markAsPaid 99 1 (ex_request\<lparr>commissionIds := [1, 2]\<rparr>)),
        PayoutRequest_save (markAsPaid 99 1 (ex_request\<lparr>commissionIds := [1, 2]\<rparr>))
          (saveAllPaid 99 50 [ex_entry 1 11 100 10, splitPaid False (ex_entry 2 10 150 20) 80]
             (ex_pay_db\<lparr>commissions := commissions ex_pay_db @
                 [(ex_entry 100 10 70 99)
                    \<lparr>isFixedAmount := False, description := ''d (Split - Remaining)'',
                      settingsVersion := None\<rparr>],
               nextId := 101\<rparr>)))"
proof -
  have t: "pAmount ex_request \<le> totalAmount (pendingDocs ex_pay_db (pAgentId ex_request))"
    unfolding ex_request_fields ex_pending ex_total by simp
  have i: "pAmount ex_request \<in> \<int>" "\<bar>pAmount ex_request\<bar> < 2 ^ 53"
    by (simp_all add: ex_request_fields)
  have st: "pStatus ex_request = Pending \<or> pStatus ex_request = Approved"
    by (simp add: ex_request_fields)
  have ag: "User_findById ex_pay_db (pAgentId ex_request)
              = Some \<lparr>uid = 20, role = ''agent'', payoutHoldIsHeld = False\<rparr>"
    by (simp add: ex_request_fields ex_pay_agent)
  let ?al = "allocate False (pAmount ex_request) (pendingCommissions ex_pay_db (pAgentId ex_request))"
  let ?d1 = "ex_pay_db\<lparr>commissions := commissions ex_pay_db @
                      [(ex_entry 100 10 70 99)
                         \<lparr>isFixedAmount := False, description := ''d (Split - Remaining)'',
                           settingsVersion := None\<rparr>],
                    nextId := 101\<rparr>"
  have a1: "paidCommissionIds ?al = [1, 2]" and a2: "remainingAmount ?al = 0"
    and a4: "saveAllPaid 99 50 (commissionsToUpdate ?al) ?d1
        = saveAllPaid 99 50 [ex_entry 1 11 100 10, splitPaid False (ex_entry 2 10 150 20) 80] ?d1"
    unfolding ex_request_fields ex_allocate by simp_all
  have a3: "createAll 99 (newCommissions ?al) ex_pay_db = Some ?d1"
    unfolding ex_request_fields using ex_writes [of False] by simp
  show ?thesis by (rule pay_unfold [OF ex_pay_req ag st i t a1 a2 a3 a4])
qed

text \<open>The example, run: the entry of 100 is paid, the entry of 150 is split into a paid
  80 and a new pending 70, the entry of 80 is untouched, and the recorded ids are those
  of the first two entries.\<close>

lemma pay_example:
  "map_prod (map_sum id commissionIds)
            (\<lambda>d'. map (\<lambda>c. (cid c, amount c, status c, payoutRequestId c)) (commissions d'))
     (processPayoutRequest 99 1 50 ActPay [] [] ex_pay_db)
   = (Inr [1, 2],
      [(1, 100, CPaid, Some 50), (2, 80, CPaid, Some 50), (3, 80, CPending, None),
       (100, 70, CPending, None)])"
  unfolding ex_pay_result
  by (simp add: markAsPaid_def PayoutRequest_save_def saveAllPaid_def Commission_save_def
      markPaid_def splitPaid_def ex_entry_def ex_pay_db_def ex_db_def)




text \<open>The account of the agent deleted: the pay action fails on the populated path
  before it reads the balance, whatever the balance is.\<close>

lemma pay_deleted_agent:
  assumes "PayoutRequest_findById d rid = Some r"
    and "pStatus r = Pending \<or> pStatus r = Approved"
    and "User_findById d (pAgentId r) = None"
  shows "processPayoutRequest now u rid ActPay notes' reason' d = (Inl NullReference, d)"
  using assms by (auto simp: processPayoutRequest_def pay_def payRead_def)

subsection \<open>Two pay operations on one agent\<close>






subsection \<open>createCommission, called twice\<close>

lemma calculateCommission_keeps:
  "calculateCommission up tot t n d = (cd, d1) \<Longrightarrow>
     orders d1 = orders d \<and> users d1 = users d \<and> commissions d1 = commissions d"
  by (auto simp: calculateCommission_def getCurrentSettings_def Let_def
      split: option.splits if_splits)

lemma filter_singleton:
  "length (filter P xs) \<le> 1 \<Longrightarrow> x \<in> set xs \<Longrightarrow> P x \<Longrightarrow> filter P xs = [x]"
proof -
  assume a: "length (filter P xs) \<le> 1" "x \<in> set xs" "P x"
  then have "x \<in> set (filter P xs)" by simp
  with a(1) show ?thesis by (cases "filter P xs") auto
qed

lemma find_append_new:
  "find P xs = None \<Longrightarrow> P x \<Longrightarrow> find P (xs @ [x]) = Some x"
  by (induction xs) (auto split: if_splits)

text \<open>
  C4 as amended: when the ledger holds at most one entry for (orderId, agentId, type)
  and a call of createCommission returns an entry, a second call with the same three
  arguments (whatever the clock and the state of the policy store) returns the same
  entry and leaves the database as the first call left it, and that entry is then the
  only one of its key.
\<close>

theorem createCommission_idempotent:
  assumes one: "length (filter (sameKey o' a' t') (commissions d)) \<le> 1"
    and first: "createCommission descr up now o' a' t' d = (Inr c, d1)"
  shows "createCommission descr2 up2 now2 o' a' t' d1 = (Inr c, d1)
       \<and> filter (sameKey o' a' t') (commissions d1) = [c]"
proof -
  from first obtain ord ag where ord: "Order_findById d o' = Some ord"
    and ag: "User_findById d a' = Some ag" and role: "role ag = ''agent''"
    by (auto simp: createCommission_def split: option.splits if_splits)
  show ?thesis
  proof (cases "find (sameKey o' a' t') (commissions d)")
    case (Some e)
    with first ord ag role have eq: "c = e" "d1 = d"
      by (simp_all add: createCommission_def)
    from Some have "e \<in> set (commissions d)" "sameKey o' a' t' e"
      using find_Some_mem by fastforce+
    with one have "filter (sameKey o' a' t') (commissions d) = [e]"
      by (intro filter_singleton)
    moreover have "createCommission descr2 up2 now2 o' a' t' d = (Inr e, d)"
      using createCommission_existing [OF ord ag role Some] .
    ultimately show ?thesis using eq by simp
  next
    case None
    obtain cd d0 where calc: "calculateCommission up (totalPrice ord) t'
         (if t' = Delivery then itemCount ord else 1) d = (cd, d0)"
      by (cases "calculateCommission up (totalPrice ord) t'
         (if t' = Delivery then itemCount ord else 1) d") blast
    from calculateCommission_keeps [OF calc]
    have keep: "orders d0 = orders d" "users d0 = users d" "commissions d0 = commissions d"
      by simp_all
    from first ord ag role None calc
    have cs1: "commissions d1 = commissions d @ [c]" and key: "sameKey o' a' t' c"
      and o1: "orders d1 = orders d" and u1: "users d1 = users d"
      using keep
      by (auto simp: createCommission_def Commission_create_def Let_def sameKey_def
          split: if_splits)
    have ord1: "Order_findById d1 o' = Some ord" using ord o1 by (simp add: Order_findById_def)
    have ag1: "User_findById d1 a' = Some ag" using ag u1 by (simp add: User_findById_def)
    have f1: "find (sameKey o' a' t') (commissions d1) = Some c"
      unfolding cs1 using None key by (rule find_append_new)
    have "createCommission descr2 up2 now2 o' a' t' d1 = (Inr c, d1)"
      using createCommission_existing [OF ord1 ag1 role f1] .
    moreover have "filter (sameKey o' a' t') (commissions d1) = [c]"
      unfolding cs1 using find_None_filter [OF None] key by simp
    ultimately show ?thesis by simp
  qed
qed


lemma ex_split_db_eval:
  "commissions ex_split_db =
     [markPaid 99 50 (ex_entry 1 11 100 10),
      markPaid 99 50 (splitPaid False (ex_entry 2 10 150 20) 80),
      ex_entry 3 13 80 30,
      (ex_entry 100 10 70 99)
         \<lparr>isFixedAmount := False, description := ''d (Split - Remaining)'',
           settingsVersion := None\<rparr>]
   \<and> orders ex_split_db = orders ex_pay_db \<and> users ex_split_db = users ex_db"
  unfolding ex_split_db_def ex_pay_result
  by (simp add: PayoutRequest_save_def saveAllPaid_def Commission_save_def markPaid_def
      splitPaid_def ex_entry_def ex_pay_db_def ex_db_def)

text \<open>
  C4 fails on the code where a settlement has split an entry: the paid original and
  the pending remainder have the same order, agent and type. In the database reached by
  paying the example request, two calls of createCommission for the split entry's key
  both return entry 2, and two entries of that key (2 and 100) are in the ledger
  afterwards, not exactly one.
\<close>

theorem createCommission_two_entries_counterexample:
  "map_sum id cid (fst (createCommission ex_descr True 120 10 20 Delivery ex_split_db)) = Inr 2
   \<and> map_sum id cid (fst (createCommission ex_descr True 121 10 20 Delivery
        (snd (createCommission ex_descr True 120 10 20 Delivery ex_split_db)))) = Inr 2
   \<and> map cid (filter (sameKey 10 20 Delivery)
        (commissions (snd (createCommission ex_descr True 121 10 20 Delivery
           (snd (createCommission ex_descr True 120 10 20 Delivery ex_split_db)))))) = [2, 100]"
proof -
  have 1: "Order_findById ex_split_db 10 = Some (hd (orders ex_db))"
    by (simp add: Order_findById_def ex_split_db_eval) (simp add: ex_pay_db_def ex_db_def)
  have 2: "User_findById ex_split_db 20 = Some (hd (users ex_db))"
    by (simp add: User_findById_def ex_split_db_eval) (simp add: ex_db_def)
  have 3: "role (hd (users ex_db)) = ''agent''" by (simp add: ex_db_def)
  have 4: "find (sameKey 10 20 Delivery) (commissions ex_split_db)
             = Some (markPaid 99 50 (splitPaid False (ex_entry 2 10 150 20) 80))"
    by (simp add: ex_split_db_eval sameKey_def markPaid_def splitPaid_def ex_entry_def)
  have call: "createCommission ex_descr True n 10 20 Delivery ex_split_db
                = (Inr (markPaid 99 50 (splitPaid False (ex_entry 2 10 150 20) 80)), ex_split_db)"
    for n using createCommission_existing [OF 1 2 3 4] .
  have ids: "map cid (filter (sameKey 10 20 Delivery) (commissions ex_split_db)) = [2, 100]"
    by (simp add: ex_split_db_eval sameKey_def markPaid_def splitPaid_def ex_entry_def)
  show ?thesis
    by (simp add: call ids) (simp add: markPaid_def splitPaid_def ex_entry_def)
qed

theorem createCommission_idempotent_witness:
  "length (filter (sameKey 10 20 Delivery) (commissions ex_db)) \<le> 1
   \<and> (\<exists>c d1. createCommission ex_descr True 60 10 20 Delivery ex_db = (Inr c, d1)
         \<and> createCommission ex_descr True 61 10 20 Delivery d1 = (Inr c, d1)
         \<and> filter (sameKey 10 20 Delivery) (commissions d1) = [c] \<and> amount c = 600)"
proof -
  have 1: "length (filter (sameKey 10 20 Delivery) (commissions ex_db)) \<le> 1"
    by (simp add: ex_db_def)
  obtain c d1 where first: "createCommission ex_descr True 60 10 20 Delivery ex_db = (Inr c, d1)"
    and amt: "amount c = 600"
    by (simp add: createCommission_def calculateCommission_def getCurrentSettings_def
        Commission_create_def schema_ok_def Order_findById_def User_findById_def
        sameKey_def ex_db_def ex_descr_def ex_settings_def defaultSettings_def itemCount_def
        Let_def)
  from createCommission_idempotent [OF 1 first, of ex_descr True 61] first amt 1
  show ?thesis by simp
qed

subsection \<open>createPayoutRequest\<close>

lemma find_pid_fresh:
  "list_all (\<lambda>r. pid r < n) rs \<Longrightarrow> find (\<lambda>x. pid x = n) rs = None"
  by (induction rs) auto







lemma ex_validate:
  "validatePayoutRequest 200 20 180 ex_open_db = Passed ex_validation"
  by (simp add: validatePayoutRequest_def ex_open_db_def ex_pay_db_def ex_db_def
      ex_settings_def defaultSettings_def existingPayout_def recentPayouts_def
      User_findById_def totalAmount_def dadd_def fl_numeral ex_entry_def ex_validation_def
      Let_def)


text \<open>An entry whose order is not stored: the creation of the remainder throws. The
  manual pay answers with the error and writes nothing; the automatic payment leaves
  the request approved with the note of its \<open>catch\<close>, and the ledger as it was.\<close>

lemma unresolved_order_example:
  "processPayoutRequest 99 1 50 ActPay [] [] (ex_pay_db\<lparr>orders := []\<rparr>)
     = (Inl ValidationFailed, ex_pay_db\<lparr>orders := []\<rparr>)
   \<and> autoPay 99 ex_request (ex_pay_db\<lparr>orders := []\<rparr>)
       = ex_pay_db\<lparr>orders := [],
                   payoutRequests :=
                     [ex_request\<lparr>pNotes := ''Auto-approved but auto-payment failed''\<rparr>]\<rparr>"
  by (simp add: processPayoutRequest_def pay_def payRead_def payWrite_def autoPay_def
      pendingCommissions_def pendingDocs_def populate_def totalAmount_def dadd_def dsub_def
      fl_numeral remainderDoc_def PayoutRequest_findById_def PayoutRequest_save_def
      User_findById_def Order_findById_def splitPaid_def
      ex_request_def ex_pay_db_def ex_db_def ex_entry_def Let_def)

subsection \<open>validatePayoutRequest\<close>

lemma find_None_iff_all: "(find P xs = None) = (\<forall>x \<in> set xs. \<not> P x)"
  by (induction xs) auto

lemma validatePayoutRequest_errors:
  assumes "settings d = Some s"
  shows "(existingPayout d a \<noteq> None \<longrightarrow>
            (\<exists>es ws. validatePayoutRequest now a amt d = Failed es ws
                     \<and> DuplicateOutstanding \<in> set es))
       \<and> (existingPayout d a = None \<longrightarrow>
            (case validatePayoutRequest now a amt d of
               Failed es ws \<Rightarrow> DuplicateOutstanding \<notin> set es
             | other \<Rightarrow> True))"
  using assms
  by (auto simp: validatePayoutRequest_def Let_def split: option.splits)

text \<open>
  C6 as amended: while a settings document exists, the validation of the creation
  route fails with the duplicate-request error among its errors whenever the agent has a
  request in status pending, approved or on hold, and the route answers with these
  errors and changes nothing; when every request of the agent is rejected or paid, the
  duplicate-request error is not among the errors of the validation.
\<close>

theorem validatePayoutRequest_duplicate:
  assumes "settings d = Some s"
  shows "((\<exists>p \<in> set (payoutRequests d). pAgentId p = a
             \<and> (pStatus p = Pending \<or> pStatus p = Approved \<or> pStatus p = OnHold)) \<longrightarrow>
            (\<exists>es ws. validatePayoutRequest now a amt d = Failed es ws
                     \<and> DuplicateOutstanding \<in> set es
                     \<and> postPayoutRequest now a amt meth acct d
                         = (Inl (ValidationErrors es ws), d)))
       \<and> ((\<forall>p \<in> set (payoutRequests d). pAgentId p = a \<longrightarrow>
               pStatus p = Rejected \<or> pStatus p = Paid) \<longrightarrow>
            (case validatePayoutRequest now a amt d of
               Failed es ws \<Rightarrow> DuplicateOutstanding \<notin> set es
             | other \<Rightarrow> True))"
proof (intro conjI impI)
  assume "\<exists>p \<in> set (payoutRequests d). pAgentId p = a
             \<and> (pStatus p = Pending \<or> pStatus p = Approved \<or> pStatus p = OnHold)"
  then have "existingPayout d a \<noteq> None"
    by (auto simp: existingPayout_def find_None_iff_all)
  with validatePayoutRequest_errors [OF assms, of a now amt]
  obtain es ws where "validatePayoutRequest now a amt d = Failed es ws"
    and "DuplicateOutstanding \<in> set es" by blast
  then show "\<exists>es ws. validatePayoutRequest now a amt d = Failed es ws
                     \<and> DuplicateOutstanding \<in> set es
                     \<and> postPayoutRequest now a amt meth acct d
                         = (Inl (ValidationErrors es ws), d)"
    by (simp add: postPayoutRequest_def)
next
  assume "\<forall>p \<in> set (payoutRequests d). pAgentId p = a \<longrightarrow>
               pStatus p = Rejected \<or> pStatus p = Paid"
  then have "existingPayout d a = None"
    by (auto simp: existingPayout_def find_None_iff_all)
  with validatePayoutRequest_errors [OF assms, of a now amt]
  show "case validatePayoutRequest now a amt d of
               Failed es ws \<Rightarrow> DuplicateOutstanding \<notin> set es
             | other \<Rightarrow> True"
    by blast
qed

theorem validatePayoutRequest_duplicate_witness:
  "settings ex_pay_db = Some ex_settings
   \<and> (\<exists>es ws. validatePayoutRequest 200 20 100 ex_pay_db = Failed es ws
         \<and> DuplicateOutstanding \<in> set es
         \<and> postPayoutRequest 200 20 100 ''mpesa'' ''0712345678'' ex_pay_db
             = (Inl (ValidationErrors es ws), ex_pay_db))
   \<and> validatePayoutRequest 200 20 180 ex_open_db = Passed ex_validation"
proof -
  have s: "settings ex_pay_db = Some ex_settings" by (simp add: ex_pay_db_def ex_db_def)
  have "ex_request \<in> set (payoutRequests ex_pay_db)" by (simp add: ex_pay_db_def)
  moreover have "pAgentId ex_request = 20 \<and> pStatus ex_request = Approved"
    by (simp add: ex_request_def)
  ultimately have e: "\<exists>p \<in> set (payoutRequests ex_pay_db). pAgentId p = 20
             \<and> (pStatus p = Pending \<or> pStatus p = Approved \<or> pStatus p = OnHold)"
    by blast
  from validatePayoutRequest_duplicate [OF s, of 20 200 100 "''mpesa''" "''0712345678''"] e
  have "\<exists>es ws. validatePayoutRequest 200 20 100 ex_pay_db = Failed es ws
         \<and> DuplicateOutstanding \<in> set es
         \<and> postPayoutRequest 200 20 100 ''mpesa'' ''0712345678'' ex_pay_db
             = (Inl (ValidationErrors es ws), ex_pay_db)"
    by blast
  with s ex_validate show ?thesis by blast
qed

text \<open>
  C6 fails on the code while no settings document exists: the validation middleware
  then lets every request through unchecked. Starting from a database without
  settings and without requests, a first request of agent 20 is created pending; the
  validation of a second one answers \<open>NoSettings\<close>, and after the second creation
  the agent has two pending requests.
\<close>

theorem validatePayoutRequest_no_settings_counterexample:
  "map pStatus (payoutRequests (snd (postPayoutRequest 200 20 180 ''mpesa'' ''0712345678''
        ex_bare_db))) = [Pending]
   \<and> validatePayoutRequest 201 20 180
        (snd (postPayoutRequest 200 20 180 ''mpesa'' ''0712345678'' ex_bare_db)) = NoSettings
   \<and> map (\<lambda>p. (pAgentId p, pStatus p))
        (payoutRequests (snd (postPayoutRequest 201 20 180 ''mpesa'' ''0712345678''
          (snd (postPayoutRequest 200 20 180 ''mpesa'' ''0712345678'' ex_bare_db)))))
       = [(20, Pending), (20, Pending)]"
proof -
  have tr: "trim ''0712345678'' = ''0712345678''"
    by (simp add: trim_def isSpace_def)
  have acc: "mpesaRegex ''0712345678''"
    by (simp add: mpesaRegex_def localNumber_def isDigit_def)
  have step: "settings d = None \<Longrightarrow>
      snd (postPayoutRequest now 20 180 ''mpesa'' ''0712345678'' d)
        = d\<lparr>payoutRequests := payoutRequests d
               @ [(payoutRequestData now 20 180 ''mpesa'' ''0712345678'' None)
                    \<lparr>pid := nextId d, pCreatedAt := now\<rparr>],
             nextId := Suc (nextId d)\<rparr>" for d now
    by (simp add: postPayoutRequest_def validatePayoutRequest_def createPayoutRequest_def
        tr acc PayoutRequest_create_def payoutRequestData_def shouldAutoApprove_def Let_def
        PayoutRequest_findById_def split: option.splits)
  have b: "settings ex_bare_db = None" "payoutRequests ex_bare_db = []"
    by (simp_all add: ex_bare_db_def ex_db_def)
  show ?thesis
    by (simp add: step b validatePayoutRequest_def)
       (simp add: payoutRequestData_def shouldAutoApprove_def)
qed

subsection \<open>The payout window\<close>

lemma ex_friday: "getDay ex_friday_0830 = 5 \<and> currentTimeOf ex_friday_0830 = ''08:30''"
  by (simp add: getDay_def currentTimeOf_def getHours_def getMinutes_def pad2_def
      digitChar_def msPerDay_def ex_friday_0830_def)

lemma ex_parse: "parseInt ''7'' = Some 7 \<and> parseInt ''00'' = Some 0"
  by (simp add: parseInt_def isDigit_def digitVal_def)

text \<open>
  C7, at a policy the schema admits: the schedule Friday 7:00 to 9:00, written without
  leading zeros, no hold, and the instant Friday 08:30. The strings are compared
  character by character, so \<open>''08:30'' >= ''7:00''\<close> is false: arePayoutsAllowed
  answers not allowed although the day is the configured one and 08:30 lies between
  7:00 and 9:00, and checkPayoutWindow reports the window closed with the next window
  start at 07:00 of the same day, which is before the instant.
\<close>

theorem window_unpadded_start_time:
  "arePayoutsAllowed ex_unpadded ex_friday_0830 = (False, OnlyBetween ''7:00'' ''9:00'')
   \<and> checkPayoutWindow (ex_db\<lparr>settings := Some ex_unpadded\<rparr>) ex_friday_0830
       = Inr \<lparr>isPayoutWindowOpen = False, nextPayoutWindow = Some 111600000\<rparr>
   \<and> (111600000::nat) < ex_friday_0830"
proof -
  have sch: "payoutSchedule ex_unpadded
      = \<lparr>enabled = True, dayOfWeek = 5, startTime = ''7:00'', endTime = ''9:00''\<rparr>"
    "globalPayoutHold ex_unpadded = False"
    by (simp_all add: ex_unpadded_def ex_settings_def defaultSettings_def)
  have day: "isCorrectDay (payoutSchedule ex_unpadded) ex_friday_0830"
    by (simp add: isCorrectDay_def sch ex_friday)
  have rng: "\<not> isWithinTimeRange (payoutSchedule ex_unpadded) ex_friday_0830"
    by (simp add: isWithinTimeRange_def sch ex_friday)
  have nxt: "nextWindow (payoutSchedule ex_unpadded) ex_friday_0830 = Some 111600000"
    by (simp add: nextWindow_def sch ex_friday splitTime_def ex_parse Let_def)
       (simp add: addDays_def setHours_def msPerDay_def ex_friday_0830_def)
  show ?thesis
    using day rng nxt
    by (simp add: arePayoutsAllowed_def checkPayoutWindow_def sch)
       (simp add: ex_friday_0830_def)
qed

subsection \<open>validateWithdrawalRequest\<close>

lemma validateWithdrawalRequest_duplicate:
  assumes "0 < amt" and "User_findById d a = Some ag"
    and "p \<in> set (payoutRequests d)" and "pAgentId p = a"
    and "pStatus p = Pending \<or> pStatus p = Approved"
  shows "\<exists>res. validateWithdrawalRequest now amt (Some a) d = Inr res
           \<and> \<not> isValid res \<and> DuplicateOutstanding \<in> set (vrErrors res)"
proof -
  have "find (\<lambda>p. pAgentId p = a \<and> (pStatus p = Pending \<or> pStatus p = Approved))
          (payoutRequests d) \<noteq> None"
    using assms(3-5) by (auto simp: find_None_iff_all)
  then show ?thesis
    using assms(1,2) by (simp add: validateWithdrawalRequest_def Let_def)
qed

lemma validateWithdrawalRequest_on_hold:
  "validateWithdrawalRequest 200 180 (Some 20)
       (ex_pay_db\<lparr>payoutRequests := [ex_request\<lparr>pStatus := OnHold\<rparr>]\<rparr>)
     = Inr \<lparr>isValid = True, vrErrors = [], vrWarnings = []\<rparr>
   \<and> (\<exists>ws. validatePayoutRequest 200 20 180
              (ex_pay_db\<lparr>payoutRequests := [ex_request\<lparr>pStatus := OnHold\<rparr>]\<rparr>)
            = Failed [DuplicateOutstanding] ws)"
  by (simp add: validateWithdrawalRequest_def validatePayoutRequest_def existingPayout_def
      recentPayouts_def User_findById_def ex_pay_db_def ex_db_def ex_request_def
      ex_settings_def defaultSettings_def totalAmount_def dadd_def fl_numeral ex_entry_def
      msPerDay_def Let_def)

end
